theory Spec2Isabelle
  imports Complex_Main "HOL-Library.Word"
begin

section \<open>Numbers\<close>

text \<open>
  The C++ code computes on \<^verbatim>\<open>double\<close>. Field values (fluxes, sources, cross sections,
  quadrature tables) are modelled as exact reals: rounding, overflow and signed zeros are
  outside the model. The diagnostics of \<^verbatim>\<open>mms.cc\<close> use the sentinels \<^verbatim>\<open>INFINITY\<close> and
  \<^verbatim>\<open>-INFINITY\<close>, so the components of a \<^verbatim>\<open>MomentTriple\<close> result are modelled by a type
  that has the two infinities and NaN beside the finite values.
\<close>

datatype double = NaN | MInf | Fin real | PInf

text \<open>The comparison \<^verbatim>\<open>a < b\<close> of IEEE doubles: false as soon as one side is NaN.\<close>

fun dlt :: "double \<Rightarrow> double \<Rightarrow> bool" where
  "dlt NaN _ = False"
| "dlt _ NaN = False"
| "dlt _ MInf = False"
| "dlt MInf _ = True"
| "dlt PInf _ = False"
| "dlt (Fin a) (Fin b) = (a < b)"
| "dlt (Fin a) PInf = True"

definition dgt :: "double \<Rightarrow> double \<Rightarrow> bool" where
  "dgt a b = dlt b a"

text \<open>The sum \<^verbatim>\<open>a + b\<close>: NaN is absorbing and the two infinities cancel to NaN.\<close>

fun dadd :: "double \<Rightarrow> double \<Rightarrow> double" where
  "dadd NaN _ = NaN"
| "dadd _ NaN = NaN"
| "dadd PInf MInf = NaN"
| "dadd MInf PInf = NaN"
| "dadd PInf _ = PInf"
| "dadd _ PInf = PInf"
| "dadd MInf _ = MInf"
| "dadd _ MInf = MInf"
| "dadd (Fin a) (Fin b) = Fin (a + b)"

definition is_nan :: "double \<Rightarrow> bool" where
  "is_nan d = (d = NaN)"

text \<open>\<^verbatim>\<open>const double tolr = 1.0e-12\<close>, as declared in each of the routines below.\<close>

definition tolr :: real where
  "tolr = 1 / 10 ^ 12"

section \<open>mms.cc: cell boundaries of the manufactured solution\<close>

text \<open>The members of \<^verbatim>\<open>Snap\<close> that the boundary build reads.\<close>

record snap_grid =
  lx :: real
  ly :: real
  lz :: real
  nx :: int
  ny :: int
  nz :: int
  nx_per_chunk :: nat
  ny_per_chunk :: nat
  nz_per_chunk :: nat

text \<open>
  \<^verbatim>\<open>for (int i = 1; i <= n; i++) b[i] = b[i-1] + step;\<close>
  The array has \<open>n + 1\<close> slots, so every index the loop touches is in range.
\<close>

function boundary_loop :: "nat \<Rightarrow> nat \<Rightarrow> real \<Rightarrow> real list \<Rightarrow> real list" where
  "boundary_loop i n step b =
     (if i \<le> n then boundary_loop (i + 1) n step (b[i := b ! (i - 1) + step]) else b)"
  by pat_completeness auto
termination
  by (relation "measure (\<lambda>(i, n, step, b). n + 1 - i)") auto

text \<open>
  The boundary arrays \<^verbatim>\<open>ib\<close>, \<^verbatim>\<open>jb\<close>, \<^verbatim>\<open>kb\<close> of \<^verbatim>\<open>MMSInitFlux::cpu_implementation\<close>
  (mms.cc lines 103-114). The arrays come from \<^verbatim>\<open>malloc\<close>; slot 0 is stored first and
  the loop stores every other slot before it is read. The second and the third loop add
  \<^verbatim>\<open>dx\<close>, as the source does. \<open>lo\<close> is \<^verbatim>\<open>dom.bounds.lo\<close>.
\<close>

definition MMSInitFlux_boundaries ::
  "snap_grid \<Rightarrow> int \<times> int \<times> int \<Rightarrow> real list \<times> real list \<times> real list" where
  "MMSInitFlux_boundaries s lo =
     (let dx = lx s / of_int (nx s);
          dy = ly s / of_int (ny s);
          dz = lz s / of_int (nz s);
          ib = (replicate (nx_per_chunk s + 1) 0)[0 := of_int (fst lo) * dx];
          ib = boundary_loop 1 (nx_per_chunk s) dx ib;
          jb = (replicate (ny_per_chunk s + 1) 0)[0 := of_int (fst (snd lo)) * dy];
          jb = boundary_loop 1 (ny_per_chunk s) dx jb;
          kb = (replicate (nz_per_chunk s + 1) 0)[0 := of_int (snd (snd lo)) * dz];
          kb = boundary_loop 1 (nz_per_chunk s) dx kb
      in (ib, jb, kb))"

text \<open>The same build in \<^verbatim>\<open>MMSInitSource::cpu_implementation\<close> (mms.cc lines 238-246).\<close>

definition MMSInitSource_boundaries ::
  "snap_grid \<Rightarrow> int \<times> int \<times> int \<Rightarrow> real list \<times> real list \<times> real list" where
  "MMSInitSource_boundaries s lo =
     (let dx = lx s / of_int (nx s);
          dy = ly s / of_int (ny s);
          dz = lz s / of_int (nz s);
          ib = (replicate (nx_per_chunk s + 1) 0)[0 := of_int (fst lo) * dx];
          ib = boundary_loop 1 (nx_per_chunk s) dx ib;
          jb = (replicate (ny_per_chunk s + 1) 0)[0 := of_int (fst (snd lo)) * dy];
          jb = boundary_loop 1 (ny_per_chunk s) dx jb;
          kb = (replicate (nz_per_chunk s + 1) 0)[0 := of_int (snd (snd lo)) * dz];
          kb = boundary_loop 1 (nz_per_chunk s) dx kb
      in (ib, jb, kb))"

text \<open>A 2 x 2 x 2 grid on a 2 x 4 x 6 box, one chunk: the cell widths are 1, 2 and 3.\<close>

definition grid_2x4x6 :: snap_grid where
  "grid_2x4x6 = \<lparr> lx = 2, ly = 4, lz = 6, nx = 2, ny = 2, nz = 2,
                  nx_per_chunk = 2, ny_per_chunk = 2, nz_per_chunk = 2 \<rparr>"

section \<open>mms.cc: comparison with the reference flux\<close>

type_synonym MomentTriple = "double \<times> double \<times> double"

text \<open>
  The body of the cell loop of \<^verbatim>\<open>MMSCompare::cpu_implementation\<close> up to the error value:
  \<^verbatim>\<open>df = 1.0; if (ref_flux < tolr) { ref_flux = 1.0; df = 0.0; }
  df = fabs(flux / ref_flux - df);\<close>
\<close>

definition mms_compare_df :: "real \<Rightarrow> real \<Rightarrow> real" where
  "mms_compare_df flux ref_flux =
     (let df = 1;
          (ref_flux, df) = (if ref_flux < tolr then (1, 0) else (ref_flux, df))
      in \<bar>flux / ref_flux - df\<bar>)"

text \<open>The rest of the body: the running \<^verbatim>\<open>max\<close>, \<^verbatim>\<open>min\<close> and \<^verbatim>\<open>sum\<close>.\<close>

definition mms_compare_cell :: "MomentTriple \<Rightarrow> real \<times> real \<Rightarrow> MomentTriple" where
  "mms_compare_cell acc cell =
     (case acc of (mx, mn, sm) \<Rightarrow>
        (let df = Fin (mms_compare_df (fst cell) (snd cell));
             mx = (if dgt df mx then df else mx);
             mn = (if dlt df mn then df else mn);
             sm = dadd sm df
         in (mx, mn, sm)))"

text \<open>
  \<^verbatim>\<open>MMSCompare::cpu_implementation\<close>. A field of a region is the list of its cell values
  in the order of the domain iterator; \<open>flux ! g\<close> and \<open>ref_flux ! g\<close> are the two
  fields of group \<open>g\<close>, over the same domain. The result is \<open>(max, min, sum)\<close>.
\<close>

definition MMSCompare_cpu_implementation :: "real list list \<Rightarrow> real list list \<Rightarrow> MomentTriple" where
  "MMSCompare_cpu_implementation flux ref_flux =
     foldl (\<lambda>acc (fa_flux, fa_ref_flux). foldl mms_compare_cell acc (zip fa_flux fa_ref_flux))
       (MInf, PInf, Fin 0) (zip flux ref_flux)"

section \<open>mms.cc: the reduction of error triples\<close>

definition MMSReduction_identity :: MomentTriple where
  "MMSReduction_identity = (MInf, PInf, Fin 0)"

text \<open>The macros \<^verbatim>\<open>MAX\<close> and \<^verbatim>\<open>MIN\<close> of mms.cc.\<close>

definition MAX_macro :: "double \<Rightarrow> double \<Rightarrow> double" where
  "MAX_macro x y = (if dgt x y then x else y)"

definition MIN_macro :: "double \<Rightarrow> double \<Rightarrow> double" where
  "MIN_macro x y = (if dlt x y then x else y)"

text \<open>\<^verbatim>\<open>MMSReduction::apply<true>\<close>: the exclusive variant, plain assignments.\<close>

definition MMSReduction_apply_exclusive :: "MomentTriple \<Rightarrow> MomentTriple \<Rightarrow> MomentTriple" where
  "MMSReduction_apply_exclusive lhs rhs =
     (case (lhs, rhs) of ((l0, l1, l2), (r0, r1, r2)) \<Rightarrow>
        (if dgt r0 l0 then r0 else l0, if dlt r1 l1 then r1 else l1, dadd l2 r2))"

text \<open>
  \<^verbatim>\<open>MMSReduction::apply<false>\<close>: each slot is replaced by a compare-and-swap loop. The
  model is the run of one thread alone, where the first swap succeeds.
\<close>

definition MMSReduction_apply_atomic :: "MomentTriple \<Rightarrow> MomentTriple \<Rightarrow> MomentTriple" where
  "MMSReduction_apply_atomic lhs rhs =
     (case (lhs, rhs) of ((l0, l1, l2), (r0, r1, r2)) \<Rightarrow>
        (MAX_macro l0 r0, MIN_macro l1 r1, dadd l2 r2))"

text \<open>\<^verbatim>\<open>MMSReduction::fold<true>\<close>.\<close>

definition MMSReduction_fold_exclusive :: "MomentTriple \<Rightarrow> MomentTriple \<Rightarrow> MomentTriple" where
  "MMSReduction_fold_exclusive rhs1 rhs2 =
     (case (rhs1, rhs2) of ((a0, a1, a2), (b0, b1, b2)) \<Rightarrow>
        (if dgt b0 a0 then b0 else a0, if dlt b1 a1 then b1 else a1, dadd a2 b2))"

text \<open>\<^verbatim>\<open>MMSReduction::fold<false>\<close>, one thread alone.\<close>

definition MMSReduction_fold_atomic :: "MomentTriple \<Rightarrow> MomentTriple \<Rightarrow> MomentTriple" where
  "MMSReduction_fold_atomic rhs1 rhs2 =
     (case (rhs1, rhs2) of ((a0, a1, a2), (b0, b1, b2)) \<Rightarrow>
        (MAX_macro a0 b0, MIN_macro a1 b1, dadd a2 b2))"

text \<open>The combination the specification names: componentwise maximum, minimum and sum.\<close>

definition dmax :: "double \<Rightarrow> double \<Rightarrow> double" where
  "dmax x y = (if dlt x y then y else x)"

definition dmin :: "double \<Rightarrow> double \<Rightarrow> double" where
  "dmin x y = (if dlt y x then y else x)"

definition triple_no_nan :: "MomentTriple \<Rightarrow> bool" where
  "triple_no_nan t = (case t of (a, b, c) \<Rightarrow> \<not> is_nan a \<and> \<not> is_nan b \<and> \<not> is_nan c)"

section \<open>outer.cc: the outer convergence test\<close>

text \<open>
  The error value of one cell in \<^verbatim>\<open>TestOuterConvergence::cpu_implementation\<close>:
  \<^verbatim>\<open>df = 1.0; if (fabs(flux0po) < tolr) { flux0po = 1.0; df = 0.0; }
  df = fabs((flux0 / flux0po) - df);\<close>
\<close>

definition outer_df :: "real \<Rightarrow> real \<Rightarrow> real" where
  "outer_df flux0 flux0po =
     (let df = 1;
          (flux0po, df) = (if \<bar>flux0po\<bar> < tolr then (1, 0) else (flux0po, df))
      in \<bar>flux0 / flux0po - df\<bar>)"

text \<open>
  The loop over the cells of one group: \<^verbatim>\<open>continue\<close> when \<^verbatim>\<open>df < -INFINITY\<close>,
  \<^verbatim>\<open>return false\<close> when \<^verbatim>\<open>df > epsi\<close>. The result \<open>False\<close> is the early return.
\<close>

fun outer_cells :: "real \<Rightarrow> (real \<times> real) list \<Rightarrow> bool" where
  "outer_cells epsi [] = True"
| "outer_cells epsi ((flux0, flux0po) # cells) =
     (let df = outer_df flux0 flux0po
      in if dlt (Fin df) MInf then outer_cells epsi cells
         else if df > epsi then False
         else outer_cells epsi cells)"

text \<open>The loop over the energy groups.\<close>

fun outer_groups :: "real \<Rightarrow> (real list \<times> real list) list \<Rightarrow> bool" where
  "outer_groups epsi [] = True"
| "outer_groups epsi ((fa_flux0, fa_flux0po) # groups) =
     (if outer_cells epsi (zip fa_flux0 fa_flux0po) then outer_groups epsi groups else False)"

text \<open>
  \<^verbatim>\<open>TestOuterConvergence::cpu_implementation\<close>: the future \<open>inner_converged\<close>,
  \<^verbatim>\<open>Snap::convergence_eps\<close>, and the groups \<open>flux0\<close> and \<open>flux0po\<close> of every group.
\<close>

definition TestOuterConvergence_cpu_implementation ::
  "bool \<Rightarrow> real \<Rightarrow> real list list \<Rightarrow> real list list \<Rightarrow> bool" where
  "TestOuterConvergence_cpu_implementation inner_converged convergence_eps flux0 flux0po =
     (if \<not> inner_converged then False
      else (let epsi = 100 * convergence_eps in outer_groups epsi (zip flux0 flux0po)))"

text \<open>
  The error value as the specification words it: a previous flux below the tolerance
  gives the error 0, any other the relative change.
\<close>

definition spec_outer_df :: "real \<Rightarrow> real \<Rightarrow> real" where
  "spec_outer_df flux0 flux0po =
     (if \<bar>flux0po\<bar> < tolr then 0 else \<bar>flux0 / flux0po - 1\<bar>)"

section \<open>outer.cc: the outer source\<close>


text \<open>
  What \<^verbatim>\<open>CalcOuterSource::cpu_implementation\<close> reads: the number of groups, the accessors
  of \<^verbatim>\<open>qi0\<close> and \<^verbatim>\<open>flux0\<close> (one per group, indexed by a point), of \<^verbatim>\<open>slgg\<close> (one per
  group, indexed by material and group, a \<^verbatim>\<open>MomentQuad\<close>), of the material map, and the
  extents of the domain. The accessors are indexed with the loop counters, as the source
  does.
\<close>

type_synonym point3 = "int \<times> int \<times> int"

record outer_regions =
  num_groups :: nat
  fa_qi0 :: "nat \<Rightarrow> point3 \<Rightarrow> real"
  fa_flux0 :: "nat \<Rightarrow> point3 \<Rightarrow> real"
  fa_slgg :: "nat \<Rightarrow> int \<Rightarrow> nat \<Rightarrow> real list"
  fa_mat :: "point3 \<Rightarrow> int"
  max_x :: int
  max_y :: int
  max_z :: int


text \<open>
  \<^verbatim>\<open>for (g...) for (i...) flux_strip[g * strip_size + i] = fa_flux0[g][x+i][y][z];\<close>
\<close>

definition load_strip :: "outer_regions \<Rightarrow> nat \<Rightarrow> int \<Rightarrow> int \<Rightarrow> int \<Rightarrow> real list \<Rightarrow> real list" where
  "load_strip R n x y z buf =
     foldl (\<lambda>buf g.
        foldl (\<lambda>buf i. buf[g * n + i := fa_flux0 R g (x + int i, y, z)]) buf [0..<n])
       buf [0..<num_groups R]"









subsection \<open>Notions used to reason about the strips\<close>






section \<open>sweep.cc: the cell kernel of the CPU sweep\<close>

text \<open>
  The body of the triple loop of \<^verbatim>\<open>MiniKBATask::cpu_implementation\<close> for one cell. The
  reads of the ghost regions, of the pencil and of the plane are its inputs: the three
  incoming face fluxes are what the body holds in \<^verbatim>\<open>psii\<close>, \<^verbatim>\<open>psij\<close> and \<^verbatim>\<open>psik\<close>
  when it starts to use them.

  An access outside an array is undefined behaviour in C++; the model makes it the fault
  \<open>OutOfBounds\<close> in the two places where the index is not bounded by the size of the
  array it addresses. Every other loop runs over \<open>ang < num_angles\<close> on buffers of
  \<open>num_angles\<close> doubles.
\<close>

datatype fault = OutOfBounds | AssertionFailed

definition read_at :: "'a list \<Rightarrow> int \<Rightarrow> fault + 'a" where
  "read_at xs i = (if 0 \<le> i \<and> i < int (length xs) then Inr (xs ! nat i) else Inl OutOfBounds)"

text \<open>The static members of \<^verbatim>\<open>Snap\<close> that the kernel reads.\<close>

record snap_tables =
  Snap_num_angles :: nat
  Snap_num_moments :: int
  Snap_mu :: "real list"
  Snap_eta :: "real list"
  Snap_xi :: "real list"
  Snap_w :: "real list"
  Snap_ec :: "real list"
  Snap_hi :: real
  Snap_hj :: real
  Snap_hk :: real
  Snap_flux_fixup :: bool
  Snap_mms_source :: bool

text \<open>
  What the body reads for one cell: \<^verbatim>\<open>args->corner\<close>, the \<^verbatim>\<open>MomentQuad\<close> of \<^verbatim>\<open>qtot\<close>,
  the MMS source \<^verbatim>\<open>qim\<close>, the incoming fluxes, \<^verbatim>\<open>dinv\<close>, \<^verbatim>\<open>t_xs\<close> and \<^verbatim>\<open>vdelt\<close>.
\<close>

record cell_input =
  in_corner :: int
  in_quad :: "real list"
  in_qim :: "real list"
  in_psii :: "real list"
  in_psij :: "real list"
  in_psik :: "real list"
  in_time_flux_in :: "real list"
  in_dinv :: "real list"
  in_t_xs :: real
  in_vdelt :: real

text \<open>
  The inner loop of the angular source,
  \<^verbatim>\<open>for (ang...) psi[ang] += Snap::ec[moment_offset+ang] * quad[l];\<close>
\<close>

fun moment_angle_loop ::
  "real list \<Rightarrow> real list \<Rightarrow> int \<Rightarrow> nat \<Rightarrow> nat list \<Rightarrow> real list \<Rightarrow> fault + real list" where
  "moment_angle_loop ec quad moment_offset l [] psi = Inr psi"
| "moment_angle_loop ec quad moment_offset l (ang # angs) psi =
     (case read_at ec (moment_offset + int ang) of
        Inl e \<Rightarrow> Inl e
      | Inr ec_v \<Rightarrow>
          (case read_at quad (int l) of
             Inl e \<Rightarrow> Inl e
           | Inr quad_l \<Rightarrow>
               moment_angle_loop ec quad moment_offset l angs
                 (psi[ang := psi ! ang + ec_v * quad_l])))"

text \<open>
  The loop over the moments as the CPU kernel writes it (sweep.cc line 259),
  \<^verbatim>\<open>for (unsigned l = 1; 1 < Snap::num_moments; l++)\<close>: its condition does not mention
  \<open>l\<close>. The counter is an unsigned 32-bit integer. The result \<open>None\<close> is a loop that
  runs forever.
\<close>

partial_function (option) cpu_moment_loop ::
  "snap_tables \<Rightarrow> int \<Rightarrow> real list \<Rightarrow> nat \<Rightarrow> real list \<Rightarrow> (fault + real list) option" where
  "cpu_moment_loop S corner_offset quad l psi =
     (if 1 < Snap_num_moments S then
        (let moment_offset = corner_offset + int l * int (Snap_num_angles S);
             r = moment_angle_loop (Snap_ec S) quad moment_offset l [0..<Snap_num_angles S] psi
         in if isl r then Some (Inl (projl r))
            else cpu_moment_loop S corner_offset quad ((l + 1) mod 2 ^ 32) (projr r))
      else Some (Inr psi))"

text \<open>The angular source of the CPU kernel (sweep.cc lines 252-265).\<close>

definition cpu_angular_source :: "snap_tables \<Rightarrow> cell_input \<Rightarrow> (fault + real list) option" where
  "cpu_angular_source S c =
     (let psi = replicate (Snap_num_angles S) (in_quad c ! 0)
      in if Snap_num_moments S > 1 then
           (let corner_offset = in_corner c * int (Snap_num_angles S) * Snap_num_moments S
            in cpu_moment_loop S corner_offset (in_quad c) 1 psi)
         else Some (Inr psi))"

text \<open>
  The angular source as the specification gives it: the moment index runs over
  \<open>1 \<le> l < num_moments\<close>.
\<close>

definition spec_angular_source :: "snap_tables \<Rightarrow> cell_input \<Rightarrow> real list" where
  "spec_angular_source S c =
     map (\<lambda>ang. in_quad c ! 0 +
            (\<Sum>l \<leftarrow> [1..<nat (Snap_num_moments S)].
               Snap_ec S ! (nat (in_corner c) * nat (Snap_num_moments S) * Snap_num_angles S
                            + l * Snap_num_angles S + ang) * in_quad c ! l))
       [0..<Snap_num_angles S]"

text \<open>The additional term of the MMS source (lines 268-275).\<close>

definition cpu_mms_term :: "snap_tables \<Rightarrow> cell_input \<Rightarrow> real list \<Rightarrow> real list" where
  "cpu_mms_term S c psi =
     (if Snap_mms_source S
      then map (\<lambda>ang. psi ! ang + in_qim c ! ang) [0..<Snap_num_angles S]
      else psi)"

text \<open>The initial solution \<^verbatim>\<open>pc\<close> (lines 277-392).\<close>

definition cpu_initial_solution :: "snap_tables \<Rightarrow> cell_input \<Rightarrow> real list \<Rightarrow> real list" where
  "cpu_initial_solution S c psi =
     (let angs = [0..<Snap_num_angles S];
          pc = map (\<lambda>ang. psi ! ang) angs;
          pc = map (\<lambda>ang. pc ! ang + in_psii c ! ang * Snap_mu S ! ang * Snap_hi S) angs;
          pc = map (\<lambda>ang. pc ! ang + in_psij c ! ang * Snap_eta S ! ang * Snap_hj S) angs;
          pc = map (\<lambda>ang. pc ! ang + in_psik c ! ang * Snap_xi S ! ang * Snap_hk S) angs;
          pc = (if in_vdelt c \<noteq> 0
                then map (\<lambda>ang. pc ! ang + in_vdelt c * in_time_flux_in c ! ang) angs
                else pc)
      in map (\<lambda>ang. pc ! ang * in_dinv c ! ang) angs)"

subsection \<open>The negative-flux fixup\<close>

text \<open>The local arrays and the counter that the fixup loop changes.\<close>

record fixup_state =
  fs_pc :: "real list"
  fs_hv_x :: "real list"
  fs_hv_y :: "real list"
  fs_hv_z :: "real list"
  fs_hv_t :: "real list"
  fs_fx_hv_x :: "real list"
  fs_fx_hv_y :: "real list"
  fs_fx_hv_z :: "real list"
  fs_fx_hv_t :: "real list"
  fs_old_negative_fluxes :: nat

text \<open>
  Before the loop: \<^verbatim>\<open>old_negative_fluxes = 0\<close> and every \<^verbatim>\<open>hv\<close> flag is 1.0. The
  \<^verbatim>\<open>fx_hv\<close> arrays are not initialised by the source; the model starts them at 0.
\<close>

definition fixup_init :: "nat \<Rightarrow> real list \<Rightarrow> fixup_state" where
  "fixup_init n pc =
     \<lparr> fs_pc = pc,
       fs_hv_x = replicate n 1, fs_hv_y = replicate n 1,
       fs_hv_z = replicate n 1, fs_hv_t = replicate n 1,
       fs_fx_hv_x = replicate n 0, fs_fx_hv_y = replicate n 0,
       fs_fx_hv_z = replicate n 0, fs_fx_hv_t = replicate n 0,
       fs_old_negative_fluxes = 0 \<rparr>"

text \<open>
  One of the four counting loops:
  \<^verbatim>\<open>fx_hv[ang] = 2.0 * pc[ang] - psi_in[ang];
  if (fx_hv[ang] < 0.0) { hv[ang] = 0.0; negative_fluxes++; }\<close>
  The results are the new \<^verbatim>\<open>fx_hv\<close>, the new \<^verbatim>\<open>hv\<close> and the number of increments.
\<close>

definition fixup_face ::
  "nat \<Rightarrow> real list \<Rightarrow> real list \<Rightarrow> real list \<Rightarrow> real list \<times> real list \<times> nat" where
  "fixup_face n pc psi_in hv =
     (let fx = map (\<lambda>ang. 2 * pc ! ang - psi_in ! ang) [0..<n];
          hv = map (\<lambda>ang. if fx ! ang < 0 then 0 else hv ! ang) [0..<n]
      in (fx, hv, length (filter (\<lambda>v. v < 0) fx)))"

text \<open>
  The first half of a pass (lines 405-434): the counting loops for x, y, z and, when
  \<^verbatim>\<open>vdelt != 0.0\<close>, for the time term. \<^verbatim>\<open>negative_fluxes\<close> is an unsigned 32-bit
  counter.
\<close>

definition fixup_count :: "snap_tables \<Rightarrow> cell_input \<Rightarrow> fixup_state \<Rightarrow> fixup_state \<times> nat" where
  "fixup_count S c s =
     (let n = Snap_num_angles S;
          (fx_x, hv_x, n_x) = fixup_face n (fs_pc s) (in_psii c) (fs_hv_x s);
          (fx_y, hv_y, n_y) = fixup_face n (fs_pc s) (in_psij c) (fs_hv_y s);
          (fx_z, hv_z, n_z) = fixup_face n (fs_pc s) (in_psik c) (fs_hv_z s);
          (fx_t, hv_t, n_t) =
             (if in_vdelt c \<noteq> 0
              then fixup_face n (fs_pc s) (in_time_flux_in c) (fs_hv_t s)
              else (fs_fx_hv_t s, fs_hv_t s, 0))
      in (s\<lparr> fs_hv_x := hv_x, fs_hv_y := hv_y, fs_hv_z := hv_z, fs_hv_t := hv_t,
             fs_fx_hv_x := fx_x, fs_fx_hv_y := fx_y, fs_fx_hv_z := fx_z, fs_fx_hv_t := fx_t \<rparr>,
          (n_x + n_y + n_z + n_t) mod 2 ^ 32))"

text \<open>
  The second half of a pass for one angle (lines 438-466): the new \<^verbatim>\<open>pc[ang]\<close>, with the
  time term when \<^verbatim>\<open>vdelt != 0.0\<close> and without it otherwise.
\<close>

definition fixup_pc ::
  "snap_tables \<Rightarrow> cell_input \<Rightarrow> real list \<Rightarrow> fixup_state \<Rightarrow> nat \<Rightarrow> real" where
  "fixup_pc S c psi s ang =
     (if in_vdelt c \<noteq> 0 then
        (let pc = psi ! ang + 0.5 * (
                    in_psii c ! ang * Snap_mu S ! ang * Snap_hi S * (1 + fs_hv_x s ! ang) +
                    in_psij c ! ang * Snap_eta S ! ang * Snap_hj S * (1 + fs_hv_y s ! ang) +
                    in_psik c ! ang * Snap_xi S ! ang * Snap_hk S * (1 + fs_hv_z s ! ang) +
                    in_time_flux_in c ! ang * in_vdelt c * (1 + fs_hv_t s ! ang));
             den = (if pc \<le> 0 then 0 else (in_t_xs c +
                    Snap_mu S ! ang * Snap_hi S * fs_hv_x s ! ang +
                    Snap_eta S ! ang * Snap_hj S * fs_hv_y s ! ang +
                    Snap_xi S ! ang * Snap_hk S * fs_hv_z s ! ang +
                    in_vdelt c * fs_hv_t s ! ang))
         in if den < tolr then 0 else pc / den)
      else
        (let pc = psi ! ang + 0.5 * (
                    in_psii c ! ang * Snap_mu S ! ang * Snap_hi S * (1 + fs_hv_x s ! ang) +
                    in_psij c ! ang * Snap_eta S ! ang * Snap_hj S * (1 + fs_hv_y s ! ang) +
                    in_psik c ! ang * Snap_xi S ! ang * Snap_hk S * (1 + fs_hv_z s ! ang));
             den = (if pc \<le> 0 then 0 else (in_t_xs c +
                    Snap_mu S ! ang * Snap_hi S * fs_hv_x s ! ang +
                    Snap_eta S ! ang * Snap_hj S * fs_hv_y s ! ang +
                    Snap_xi S ! ang * Snap_hk S * fs_hv_z s ! ang))
         in if den < tolr then 0 else pc / den))"

definition fixup_recompute ::
  "snap_tables \<Rightarrow> cell_input \<Rightarrow> real list \<Rightarrow> fixup_state \<Rightarrow> fixup_state" where
  "fixup_recompute S c psi s =
     s\<lparr> fs_pc := map (fixup_pc S c psi s) [0..<Snap_num_angles S] \<rparr>"

text \<open>
  The loop \<^verbatim>\<open>while (true)\<close> of the fixup (lines 404-467): count, leave when the count is
  the one of the pass before, else store the count and compute \<^verbatim>\<open>pc\<close> again. The result
  \<open>None\<close> is a loop that runs forever.
\<close>

partial_function (option) fixup_loop ::
  "snap_tables \<Rightarrow> cell_input \<Rightarrow> real list \<Rightarrow> fixup_state \<Rightarrow> fixup_state option" where
  "fixup_loop S c psi s =
     (let s1 = fst (fixup_count S c s);
          negative_fluxes = snd (fixup_count S c s)
      in if negative_fluxes = fs_old_negative_fluxes s then Some s1
         else fixup_loop S c psi
                (fixup_recompute S c psi (s1\<lparr> fs_old_negative_fluxes := negative_fluxes \<rparr>)))"

text \<open>What the body has computed for one cell when it reaches the reductions.\<close>

record cell_output =
  out_pc :: "real list"
  out_psii :: "real list"
  out_psij :: "real list"
  out_psik :: "real list"
  out_time_flux_out :: "real list option"
  out_flux :: real
  out_fluxm :: "real list"

text \<open>
  The reductions (lines 567-590): \<^verbatim>\<open>psi[ang] = Snap::w[ang] * pc[ang]\<close>, the total folded
  into \<^verbatim>\<open>flux\<close>, and for \<open>1 \<le> l < num_moments\<close> the total folded into slot \<open>l\<close> of
  \<^verbatim>\<open>fluxm\<close> (the list holds the slots from 1 on).
\<close>

definition cpu_flux_total :: "snap_tables \<Rightarrow> real list \<Rightarrow> real" where
  "cpu_flux_total S pc =
     foldl (+) 0 (map (\<lambda>ang. Snap_w S ! ang * pc ! ang) [0..<Snap_num_angles S])"

definition cpu_fluxm_totals :: "snap_tables \<Rightarrow> cell_input \<Rightarrow> real list \<Rightarrow> real list" where
  "cpu_fluxm_totals S c pc =
     (if Snap_num_moments S > 1 then
        map (\<lambda>l. let offset = l * Snap_num_angles S
                         + nat (in_corner c) * Snap_num_angles S * nat (Snap_num_moments S)
                 in foldl (+) 0 (map (\<lambda>ang. Snap_ec S ! (offset + ang) * (Snap_w S ! ang * pc ! ang))
                                   [0..<Snap_num_angles S]))
          [1..<nat (Snap_num_moments S)]
      else [])"

text \<open>The two ways the body computes the outgoing fluxes (lines 393-492).\<close>

definition cpu_fixup_branch ::
  "snap_tables \<Rightarrow> cell_input \<Rightarrow> real list \<Rightarrow> real list \<Rightarrow> cell_output option" where
  "cpu_fixup_branch S c psi pc =
     (case fixup_loop S c psi (fixup_init (Snap_num_angles S) pc) of
        None \<Rightarrow> None
      | Some s \<Rightarrow>
          (let angs = [0..<Snap_num_angles S];
               pc = fs_pc s
           in Some \<lparr> out_pc = pc,
                out_psii = map (\<lambda>ang. fs_fx_hv_x s ! ang * fs_hv_x s ! ang) angs,
                out_psij = map (\<lambda>ang. fs_fx_hv_y s ! ang * fs_hv_y s ! ang) angs,
                out_psik = map (\<lambda>ang. fs_fx_hv_z s ! ang * fs_hv_z s ! ang) angs,
                out_time_flux_out =
                  (if in_vdelt c \<noteq> 0
                   then Some (map (\<lambda>ang. fs_fx_hv_t s ! ang * fs_hv_t s ! ang) angs)
                   else None),
                out_flux = cpu_flux_total S pc,
                out_fluxm = cpu_fluxm_totals S c pc \<rparr>))"

definition cpu_no_fixup_branch ::
  "snap_tables \<Rightarrow> cell_input \<Rightarrow> real list \<Rightarrow> cell_output" where
  "cpu_no_fixup_branch S c pc =
     (let angs = [0..<Snap_num_angles S]
      in \<lparr> out_pc = pc,
           out_psii = map (\<lambda>ang. 2 * pc ! ang - in_psii c ! ang) angs,
           out_psij = map (\<lambda>ang. 2 * pc ! ang - in_psij c ! ang) angs,
           out_psik = map (\<lambda>ang. 2 * pc ! ang - in_psik c ! ang) angs,
           out_time_flux_out =
             (if in_vdelt c \<noteq> 0
              then Some (map (\<lambda>ang. 2 * pc ! ang - in_time_flux_in c ! ang) angs)
              else None),
           out_flux = cpu_flux_total S pc,
           out_fluxm = cpu_fluxm_totals S c pc \<rparr>)"

text \<open>
  The body for one cell. \<open>None\<close>: the body does not return. \<open>Some (Inl OutOfBounds)\<close>:
  it leaves an array. \<open>Some (Inr out)\<close>: it reaches the reductions with \<open>out\<close>.
\<close>

definition cpu_cell :: "snap_tables \<Rightarrow> cell_input \<Rightarrow> (fault + cell_output) option" where
  "cpu_cell S c =
     (case cpu_angular_source S c of
        None \<Rightarrow> None
      | Some (Inl e) \<Rightarrow> Some (Inl e)
      | Some (Inr psi) \<Rightarrow>
          (let psi = cpu_mms_term S c psi;
               pc = cpu_initial_solution S c psi
           in if Snap_flux_fixup S
              then map_option Inr (cpu_fixup_branch S c psi pc)
              else Some (Inr (cpu_no_fixup_branch S c pc))))"

text \<open>The buffers of a cell have \<open>num_angles\<close> entries and the quadrature tables too.\<close>

definition cell_wf :: "snap_tables \<Rightarrow> cell_input \<Rightarrow> bool" where
  "cell_wf S c =
     (length (Snap_mu S) = Snap_num_angles S \<and> length (Snap_eta S) = Snap_num_angles S \<and>
      length (Snap_xi S) = Snap_num_angles S \<and> length (Snap_w S) = Snap_num_angles S \<and>
      length (in_psii c) = Snap_num_angles S \<and> length (in_psij c) = Snap_num_angles S \<and>
      length (in_psik c) = Snap_num_angles S \<and>
      length (in_time_flux_in c) = Snap_num_angles S \<and>
      length (in_dinv c) = Snap_num_angles S \<and> length (in_qim c) = Snap_num_angles S \<and>
      length (in_quad c) = 4)"

subsection \<open>Notions used to reason about the fixup loop\<close>

text \<open>
  The state with which the loop goes round again, the number of flags that are still
  set, and a measure of what the loop has left to do: it falls in every pass that does
  not leave the loop.
\<close>

definition fixup_next ::
  "snap_tables \<Rightarrow> cell_input \<Rightarrow> real list \<Rightarrow> fixup_state \<Rightarrow> fixup_state" where
  "fixup_next S c psi s =
     fixup_recompute S c psi
       ((fst (fixup_count S c s))\<lparr> fs_old_negative_fluxes := snd (fixup_count S c s) \<rparr>)"

definition nonzeros :: "real list \<Rightarrow> nat" where
  "nonzeros hv = length (filter (\<lambda>v. v \<noteq> 0) hv)"

definition hv_count :: "fixup_state \<Rightarrow> nat" where
  "hv_count s = nonzeros (fs_hv_x s) + nonzeros (fs_hv_y s) + nonzeros (fs_hv_z s) + nonzeros (fs_hv_t s)"

definition fixup_measure ::
  "snap_tables \<Rightarrow> cell_input \<Rightarrow> real list \<Rightarrow> fixup_state \<Rightarrow> nat" where
  "fixup_measure S c psi s =
     3 * hv_count (fst (fixup_count S c s)) +
     (if fs_pc s \<noteq> fs_pc (fixup_next S c psi s) then 2
      else if fs_old_negative_fluxes s \<noteq> snd (fixup_count S c s) then 1 else 0)"

text \<open>The flags after one counting loop, written with the test on \<^verbatim>\<open>fx_hv\<close> unfolded.\<close>

definition clear_hv :: "nat \<Rightarrow> real list \<Rightarrow> real list \<Rightarrow> real list \<Rightarrow> real list" where
  "clear_hv n pc psi_in hv =
     map (\<lambda>ang. if 2 * pc ! ang - psi_in ! ang < 0 then 0 else hv ! ang) [0..<n]"

text \<open>What holds of a state each time the loop tests its exit, and of the state it returns.\<close>

definition hv_nonneg :: "nat \<Rightarrow> fixup_state \<Rightarrow> bool" where
  "hv_nonneg n s =
     (\<forall>ang < n. 0 \<le> fs_hv_x s ! ang \<and> 0 \<le> fs_hv_y s ! ang \<and>
                0 \<le> fs_hv_z s ! ang \<and> 0 \<le> fs_hv_t s ! ang)"

definition faces_nonneg :: "snap_tables \<Rightarrow> cell_input \<Rightarrow> fixup_state \<Rightarrow> bool" where
  "faces_nonneg S c r =
     (\<forall>ang < Snap_num_angles S.
        0 \<le> fs_fx_hv_x r ! ang * fs_hv_x r ! ang \<and>
        0 \<le> fs_fx_hv_y r ! ang * fs_hv_y r ! ang \<and>
        0 \<le> fs_fx_hv_z r ! ang * fs_hv_z r ! ang \<and>
        (in_vdelt c \<noteq> 0 \<longrightarrow> 0 \<le> fs_fx_hv_t r ! ang * fs_hv_t r ! ang))"

definition pc_nonneg :: "nat \<Rightarrow> fixup_state \<Rightarrow> bool" where
  "pc_nonneg n s = (\<forall>ang < n. 0 \<le> fs_pc s ! ang)"

text \<open>For every angle, one of the three incoming face fluxes is not negative.\<close>

definition incoming_nonneg :: "snap_tables \<Rightarrow> cell_input \<Rightarrow> bool" where
  "incoming_nonneg S c =
     (\<forall>ang < Snap_num_angles S.
        0 \<le> in_psii c ! ang \<or> 0 \<le> in_psij c ! ang \<or> 0 \<le> in_psik c ! ang)"

subsection \<open>Concrete cells\<close>

text \<open>
  Two angles, one moment, time-dependent (\<open>vdelt = 1\<close>): the tables and a cell with
  positive incoming fluxes. The same tables with two moments, and the cell with a
  first-moment source.
\<close>

definition tables_2ang :: snap_tables where
  "tables_2ang = \<lparr> Snap_num_angles = 2, Snap_num_moments = 1,
      Snap_mu = [1, 1], Snap_eta = [1, 1], Snap_xi = [1, 1], Snap_w = [1 / 2, 1 / 2],
      Snap_ec = replicate 32 1, Snap_hi = 1, Snap_hj = 1, Snap_hk = 1,
      Snap_flux_fixup = False, Snap_mms_source = False \<rparr>"

definition cell_2ang :: cell_input where
  "cell_2ang = \<lparr> in_corner = 0, in_quad = [1, 2, 0, 0], in_qim = [0, 0],
      in_psii = [1, 2], in_psij = [0, 1], in_psik = [2, 0], in_time_flux_in = [1, 1],
      in_dinv = [1 / 4, 1 / 5], in_t_xs = 1, in_vdelt = 1 \<rparr>"

definition tables_2mom :: snap_tables where
  "tables_2mom = tables_2ang\<lparr> Snap_num_moments := 2 \<rparr>"

text \<open>The fixup switched on; a cell with a negative source and no incoming flux.\<close>

definition tables_fixup :: snap_tables where
  "tables_fixup = tables_2ang\<lparr> Snap_flux_fixup := True \<rparr>"

definition cell_negative_source :: cell_input where
  "cell_negative_source = \<lparr> in_corner = 0, in_quad = [- 1, 0, 0, 0], in_qim = [0, 0],
      in_psii = [0, 0], in_psij = [0, 0], in_psik = [0, 0], in_time_flux_in = [0, 0],
      in_dinv = [1 / 4, 1 / 4], in_t_xs = 1, in_vdelt = 0 \<rparr>"

text \<open>
  A cell whose three incoming fluxes are negative: with \<open>t_xs = 97\<close> the denominator of
  each angle is \<open>97 + 1 + 1 + 1 = 100\<close>.
\<close>

definition cell_negative_incoming :: cell_input where
  "cell_negative_incoming = \<lparr> in_corner = 0, in_quad = [- 1, 0, 0, 0], in_qim = [0, 0],
      in_psii = [- 10, - 10], in_psij = [- 10, - 10], in_psik = [- 10, - 10],
      in_time_flux_in = [0, 0],
      in_dinv = [1 / 100, 1 / 100], in_t_xs = 97, in_vdelt = 0 \<rparr>"

section \<open>sweep.cc: the cell kernels of the SSE and AVX sweeps\<close>

text \<open>
  \<^verbatim>\<open>MiniKBATask::sse_implementation\<close> and \<^verbatim>\<open>MiniKBATask::avx_implementation\<close> are the same
  text up to the width of a vector (two and four doubles), the assertion on
  \<^verbatim>\<open>num_angles\<close> and the horizontal total of the reductions; one model with the width
  \<open>W\<close> and the horizontal total as parameters serves both. A vector is the list of its
  lanes, lane 0 first; a mask, the result of a comparison, is the list of the truth values
  of its lanes. An array of vectors over a buffer of doubles holds the doubles
  \<open>W * ang, \<dots>, W * ang + W - 1\<close> in its vector \<open>ang\<close>.
\<close>

type_synonym vec = "real list"

definition mm_set1_pd :: "nat \<Rightarrow> real \<Rightarrow> vec" where
  "mm_set1_pd W x = replicate W x"

definition mm_add_pd :: "vec \<Rightarrow> vec \<Rightarrow> vec" where
  "mm_add_pd a b = map2 (+) a b"

definition mm_sub_pd :: "vec \<Rightarrow> vec \<Rightarrow> vec" where
  "mm_sub_pd a b = map2 (-) a b"

definition mm_mul_pd :: "vec \<Rightarrow> vec \<Rightarrow> vec" where
  "mm_mul_pd a b = map2 (*) a b"

definition mm_div_pd :: "vec \<Rightarrow> vec \<Rightarrow> vec" where
  "mm_div_pd a b = map2 (/) a b"

text \<open>\<^verbatim>\<open>_mm_cmp_pd(a, b, _CMP_GE_OS)\<close>.\<close>

definition mm_cmp_ge_pd :: "vec \<Rightarrow> vec \<Rightarrow> bool list" where
  "mm_cmp_ge_pd a b = map2 (\<lambda>x y. x \<ge> y) a b"

text \<open>
  \<^verbatim>\<open>_mm_and_pd\<close> and \<^verbatim>\<open>_mm_andnot_pd\<close> of a mask and a vector: a lane is kept or becomes
  0.0. \<^verbatim>\<open>_mm_or_pd\<close> is used by the kernel on two vectors of which one has 0.0 in each
  lane; the bitwise or with 0.0 is the other lane.
\<close>

definition mm_and_pd :: "bool list \<Rightarrow> vec \<Rightarrow> vec" where
  "mm_and_pd m v = map2 (\<lambda>b x. if b then x else 0) m v"

definition mm_andnot_pd :: "bool list \<Rightarrow> vec \<Rightarrow> vec" where
  "mm_andnot_pd m v = map2 (\<lambda>b x. if b then 0 else x) m v"

definition mm_or_pd :: "vec \<Rightarrow> vec \<Rightarrow> vec" where
  "mm_or_pd a b = map2 (\<lambda>x y. if x = 0 then y else x) a b"

text \<open>
  The count of one counting loop body: \<^verbatim>\<open>_mm_andnot_si128(_mm_castpd_si128(ge),
  _mm_set_epi32(0, 1, 0, 1))\<close> holds a 1 in the low word of every lane whose comparison
  failed, and the extracts of the words 0, 2 (and 4, 6) are added to the counter.
\<close>

definition mask_negatives :: "bool list \<Rightarrow> nat" where
  "mask_negatives ge = length (filter Not ge)"

text \<open>
  \<^verbatim>\<open>_mm_hadd_pd\<close>, \<^verbatim>\<open>_mm256_hadd_pd\<close> (which adds within each half of 128 bits),
  \<^verbatim>\<open>_mm256_extractf128_pd(v, 0)\<close> and \<^verbatim>\<open>_mm_cvtsd_f64\<close>.
\<close>

definition mm_hadd_pd :: "vec \<Rightarrow> vec \<Rightarrow> vec" where
  "mm_hadd_pd a b = [a ! 0 + a ! 1, b ! 0 + b ! 1]"

definition mm256_hadd_pd :: "vec \<Rightarrow> vec \<Rightarrow> vec" where
  "mm256_hadd_pd a b = [a ! 0 + a ! 1, b ! 0 + b ! 1, a ! 2 + a ! 3, b ! 2 + b ! 3]"

definition mm256_extractf128_pd_0 :: "vec \<Rightarrow> vec" where
  "mm256_extractf128_pd_0 v = take 2 v"

definition mm_cvtsd_f64 :: "vec \<Rightarrow> real" where
  "mm_cvtsd_f64 v = v ! 0"

text \<open>
  The horizontal totals of the two kernels: \<^verbatim>\<open>_mm_cvtsd_f64(_mm_hadd_pd(v, v))\<close> (sweep.cc
  line 1144) and \<^verbatim>\<open>v = _mm256_hadd_pd(v, v); _mm_cvtsd_f64(_mm256_extractf128_pd(
  _mm256_hadd_pd(v, v), 0))\<close> (lines 1756-1758).
\<close>

definition sse_horizontal_total :: "vec \<Rightarrow> real" where
  "sse_horizontal_total vec_total = mm_cvtsd_f64 (mm_hadd_pd vec_total vec_total)"

definition avx_horizontal_total :: "vec \<Rightarrow> real" where
  "avx_horizontal_total vec_total =
     (let vec_total = mm256_hadd_pd vec_total vec_total
      in mm_cvtsd_f64 (mm256_extractf128_pd_0 (mm256_hadd_pd vec_total vec_total)))"

text \<open>
  The vector \<open>ang\<close> of an array of vectors over the doubles of \<open>tab\<close> from \<open>off\<close> on:
  \<^verbatim>\<open>_mm_set_pd(tab[off+2*ang+1], tab[off+2*ang])\<close>, or the vector \<open>ang\<close> of a buffer
  cast to a pointer to vectors. The second form tells when the vector lies outside.
\<close>

definition lanes_at :: "nat \<Rightarrow> real list \<Rightarrow> nat \<Rightarrow> nat \<Rightarrow> vec" where
  "lanes_at W tab off ang = map (\<lambda>j. tab ! (off + W * ang + j)) [0..<W]"

definition vec_read_at :: "nat \<Rightarrow> real list \<Rightarrow> nat \<Rightarrow> fault + vec" where
  "vec_read_at W tab ang =
     (if W * ang + W \<le> length tab then Inr (lanes_at W tab 0 ang) else Inl OutOfBounds)"

text \<open>The angular source (sweep.cc lines 767-795 and 1332-1362).\<close>

definition simd_angular_source :: "nat \<Rightarrow> snap_tables \<Rightarrow> cell_input \<Rightarrow> vec list" where
  "simd_angular_source W S c =
     (let num_vec_angles = Snap_num_angles S div W;
          psi = replicate num_vec_angles (mm_set1_pd W (in_quad c ! 0));
          psi = (if Snap_num_moments S > 1 then
                   (let corner_offset = nat (in_corner c) * Snap_num_angles S * nat (Snap_num_moments S)
                    in foldl (\<lambda>psi l.
                         let moment_offset = corner_offset + l * Snap_num_angles S
                         in map (\<lambda>ang. mm_add_pd (psi ! ang)
                                   (mm_mul_pd (lanes_at W (Snap_ec S) moment_offset ang)
                                              (mm_set1_pd W (in_quad c ! l))))
                              [0..<num_vec_angles])
                       psi [1..<nat (Snap_num_moments S)])
                 else psi)
      in if Snap_mms_source S
         then map (\<lambda>ang. mm_add_pd (psi ! ang) (lanes_at W (in_qim c) 0 ang)) [0..<num_vec_angles]
         else psi)"

text \<open>
  The loop that adds the z face to the initial solution (lines 883-886 and 1452-1456):
  \<^verbatim>\<open>for (int ang = 0; ang < Snap::num_angles; ang++) pc[ang] = _mm_add_pd(pc[ang],
  _mm_mul_pd(_mm_mul_pd(psik[ang], _mm_set_pd(Snap::xi[2*ang+1], Snap::xi[2*ang])),
  _mm_set1_pd(Snap::hk)));\<close> It runs over \<^verbatim>\<open>num_angles\<close> vectors; \<^verbatim>\<open>pc\<close> and \<^verbatim>\<open>psik\<close> have
  \<^verbatim>\<open>num_vec_angles\<close>, and \<^verbatim>\<open>xi\<close> has \<^verbatim>\<open>num_angles\<close> doubles.
\<close>

fun simd_z_loop ::
  "nat \<Rightarrow> real list \<Rightarrow> real \<Rightarrow> vec list \<Rightarrow> nat list \<Rightarrow> vec list \<Rightarrow> fault + vec list" where
  "simd_z_loop W xi hk psik [] pc = Inr pc"
| "simd_z_loop W xi hk psik (ang # angs) pc =
     (case read_at pc (int ang) of
        Inl e \<Rightarrow> Inl e
      | Inr pc_ang \<Rightarrow>
          (case read_at psik (int ang) of
             Inl e \<Rightarrow> Inl e
           | Inr psik_ang \<Rightarrow>
               (case vec_read_at W xi ang of
                  Inl e \<Rightarrow> Inl e
                | Inr xi_ang \<Rightarrow>
                    simd_z_loop W xi hk psik angs
                      (pc[ang := mm_add_pd pc_ang
                                   (mm_mul_pd (mm_mul_pd psik_ang xi_ang) (mm_set1_pd W hk))]))))"

text \<open>The initial solution (from line 797 and from line 1364 on): the x and the y face, the
  loop over the z face, the time term and the product with \<^verbatim>\<open>dinv\<close>.\<close>

definition simd_initial_solution ::
  "nat \<Rightarrow> snap_tables \<Rightarrow> cell_input \<Rightarrow> vec list \<Rightarrow> fault + vec list" where
  "simd_initial_solution W S c psi =
     (let num_vec_angles = Snap_num_angles S div W;
          angs = [0..<num_vec_angles];
          pc = map (\<lambda>ang. psi ! ang) angs;
          pc = map (\<lambda>ang. mm_add_pd (pc ! ang)
                      (mm_mul_pd (mm_mul_pd (lanes_at W (in_psii c) 0 ang) (lanes_at W (Snap_mu S) 0 ang))
                                 (mm_set1_pd W (Snap_hi S)))) angs;
          pc = map (\<lambda>ang. mm_add_pd (pc ! ang)
                      (mm_mul_pd (mm_mul_pd (lanes_at W (in_psij c) 0 ang) (lanes_at W (Snap_eta S) 0 ang))
                                 (mm_set1_pd W (Snap_hj S)))) angs;
          psik = map (\<lambda>ang. lanes_at W (in_psik c) 0 ang) angs
      in case simd_z_loop W (Snap_xi S) (Snap_hk S) psik [0..<Snap_num_angles S] pc of
           Inl e \<Rightarrow> Inl e
         | Inr pc \<Rightarrow>
             (let pc = (if in_vdelt c \<noteq> 0
                        then map (\<lambda>ang. mm_add_pd (pc ! ang)
                                    (mm_mul_pd (mm_set1_pd W (in_vdelt c))
                                               (lanes_at W (in_time_flux_in c) 0 ang))) angs
                        else pc)
              in Inr (map (\<lambda>ang. mm_mul_pd (pc ! ang) (lanes_at W (in_dinv c) 0 ang)) angs)))"

subsection \<open>The fixup of the vector kernels\<close>

record simd_fixup_state =
  ss_pc :: "vec list"
  ss_hv_x :: "vec list"
  ss_hv_y :: "vec list"
  ss_hv_z :: "vec list"
  ss_hv_t :: "vec list"
  ss_fx_hv_x :: "vec list"
  ss_fx_hv_y :: "vec list"
  ss_fx_hv_z :: "vec list"
  ss_fx_hv_t :: "vec list"
  ss_old_negative_fluxes :: nat

definition simd_fixup_init :: "nat \<Rightarrow> nat \<Rightarrow> vec list \<Rightarrow> simd_fixup_state" where
  "simd_fixup_init W n pc =
     \<lparr> ss_pc = pc,
       ss_hv_x = replicate n (mm_set1_pd W 1), ss_hv_y = replicate n (mm_set1_pd W 1),
       ss_hv_z = replicate n (mm_set1_pd W 1), ss_hv_t = replicate n (mm_set1_pd W 1),
       ss_fx_hv_x = replicate n (mm_set1_pd W 0), ss_fx_hv_y = replicate n (mm_set1_pd W 0),
       ss_fx_hv_z = replicate n (mm_set1_pd W 0), ss_fx_hv_t = replicate n (mm_set1_pd W 0),
       ss_old_negative_fluxes = 0 \<rparr>"

text \<open>
  One counting loop (lines 918-928 and the three after it):
  \<^verbatim>\<open>fx_hv[ang] = _mm_sub_pd(_mm_mul_pd(_mm_set1_pd(2.0), pc[ang]), psi_in[ang]);
  ge = _mm_cmp_pd(fx_hv[ang], _mm_set1_pd(0.0), _CMP_GE_OS);
  hv[ang] = _mm_and_pd(ge, hv[ang]);\<close> and the count of the lanes that failed.
\<close>

definition simd_fixup_face ::
  "nat \<Rightarrow> nat \<Rightarrow> vec list \<Rightarrow> vec list \<Rightarrow> vec list \<Rightarrow> vec list \<times> vec list \<times> nat" where
  "simd_fixup_face W n pc psi_in hv =
     (let fx = map (\<lambda>ang. mm_sub_pd (mm_mul_pd (mm_set1_pd W 2) (pc ! ang)) (psi_in ! ang)) [0..<n];
          ge = map (\<lambda>ang. mm_cmp_ge_pd (fx ! ang) (mm_set1_pd W 0)) [0..<n];
          hv = map (\<lambda>ang. mm_and_pd (ge ! ang) (hv ! ang)) [0..<n]
      in (fx, hv, sum_list (map mask_negatives ge)))"

definition simd_fixup_count ::
  "nat \<Rightarrow> snap_tables \<Rightarrow> cell_input \<Rightarrow> simd_fixup_state \<Rightarrow> simd_fixup_state \<times> nat" where
  "simd_fixup_count W S c s =
     (let n = Snap_num_angles S div W;
          angs = [0..<n];
          psii = map (\<lambda>ang. lanes_at W (in_psii c) 0 ang) angs;
          psij = map (\<lambda>ang. lanes_at W (in_psij c) 0 ang) angs;
          psik = map (\<lambda>ang. lanes_at W (in_psik c) 0 ang) angs;
          time_flux_in = map (\<lambda>ang. lanes_at W (in_time_flux_in c) 0 ang) angs;
          (fx_x, hv_x, n_x) = simd_fixup_face W n (ss_pc s) psii (ss_hv_x s);
          (fx_y, hv_y, n_y) = simd_fixup_face W n (ss_pc s) psij (ss_hv_y s);
          (fx_z, hv_z, n_z) = simd_fixup_face W n (ss_pc s) psik (ss_hv_z s);
          (fx_t, hv_t, n_t) =
             (if in_vdelt c \<noteq> 0
              then simd_fixup_face W n (ss_pc s) time_flux_in (ss_hv_t s)
              else (ss_fx_hv_t s, ss_hv_t s, 0))
      in (s\<lparr> ss_hv_x := hv_x, ss_hv_y := hv_y, ss_hv_z := hv_z, ss_hv_t := hv_t,
             ss_fx_hv_x := fx_x, ss_fx_hv_y := fx_y, ss_fx_hv_z := fx_z, ss_fx_hv_t := fx_t \<rparr>,
          (n_x + n_y + n_z + n_t) mod 2 ^ 32))"

text \<open>The new \<^verbatim>\<open>pc[ang]\<close> of a pass (lines 968-1031), with and without the time term; the
  mask \<^verbatim>\<open>pc_ge\<close> is the second operand of \<^verbatim>\<open>_mm_and_pd(den, pc_ge)\<close> there.\<close>

definition simd_fixup_pc ::
  "nat \<Rightarrow> snap_tables \<Rightarrow> cell_input \<Rightarrow> vec list \<Rightarrow> simd_fixup_state \<Rightarrow> nat \<Rightarrow> vec" where
  "simd_fixup_pc W S c psi s ang =
     (let mu = lanes_at W (Snap_mu S) 0 ang;
          eta = lanes_at W (Snap_eta S) 0 ang;
          xi = lanes_at W (Snap_xi S) 0 ang;
          one = mm_set1_pd W 1;
          sum = mm_mul_pd (lanes_at W (in_psii c) 0 ang)
                  (mm_mul_pd mu (mm_mul_pd (mm_set1_pd W (Snap_hi S)) (mm_add_pd one (ss_hv_x s ! ang))));
          sum = mm_add_pd sum (mm_mul_pd (lanes_at W (in_psij c) 0 ang)
                  (mm_mul_pd eta (mm_mul_pd (mm_set1_pd W (Snap_hj S)) (mm_add_pd one (ss_hv_y s ! ang)))));
          sum = mm_add_pd sum (mm_mul_pd (lanes_at W (in_psik c) 0 ang)
                  (mm_mul_pd xi (mm_mul_pd (mm_set1_pd W (Snap_hk S)) (mm_add_pd one (ss_hv_z s ! ang)))));
          sum = (if in_vdelt c \<noteq> 0
                 then mm_add_pd sum (mm_mul_pd (lanes_at W (in_time_flux_in c) 0 ang)
                        (mm_mul_pd (mm_set1_pd W (in_vdelt c)) (mm_add_pd one (ss_hv_t s ! ang))))
                 else sum);
          pc = mm_add_pd (psi ! ang) (mm_mul_pd (mm_set1_pd W 0.5) sum);
          faces = mm_add_pd (mm_add_pd
                    (mm_mul_pd (mm_mul_pd mu (mm_set1_pd W (Snap_hi S))) (ss_hv_x s ! ang))
                    (mm_mul_pd (mm_mul_pd eta (mm_set1_pd W (Snap_hj S))) (ss_hv_y s ! ang)))
                    (mm_mul_pd (mm_mul_pd xi (mm_set1_pd W (Snap_hk S))) (ss_hv_z s ! ang));
          den = (if in_vdelt c \<noteq> 0
                 then mm_add_pd (mm_set1_pd W (in_t_xs c))
                        (mm_add_pd faces (mm_mul_pd (mm_set1_pd W (in_vdelt c)) (ss_hv_t s ! ang)))
                 else mm_add_pd (mm_set1_pd W (in_t_xs c)) faces);
          pc_ge = mm_cmp_ge_pd pc (mm_set1_pd W 0);
          den = mm_and_pd pc_ge den;
          den_ge = mm_cmp_ge_pd den (mm_set1_pd W tolr)
      in mm_or_pd (mm_and_pd den_ge (mm_div_pd pc den)) (mm_andnot_pd den_ge (mm_set1_pd W 0)))"

partial_function (option) simd_fixup_loop ::
  "nat \<Rightarrow> snap_tables \<Rightarrow> cell_input \<Rightarrow> vec list \<Rightarrow> simd_fixup_state \<Rightarrow> simd_fixup_state option" where
  "simd_fixup_loop W S c psi s =
     (let s1 = fst (simd_fixup_count W S c s);
          negative_fluxes = snd (simd_fixup_count W S c s)
      in if negative_fluxes = ss_old_negative_fluxes s then Some s1
         else simd_fixup_loop W S c psi
                (s1\<lparr> ss_old_negative_fluxes := negative_fluxes,
                     ss_pc := map (simd_fixup_pc W S c psi s1) [0..<Snap_num_angles S div W] \<rparr>))"

subsection \<open>The reductions and the body of the vector kernels\<close>

text \<open>
  The reductions (lines 1140-1159 and 1752-1775). They add up the vectors of \<^verbatim>\<open>psi\<close>,
  which holds the angular source at this point: the vector kernels have no counterpart of
  \<^verbatim>\<open>psi[ang] = Snap::w[ang] * pc[ang]\<close>.
\<close>

definition simd_flux_total :: "nat \<Rightarrow> (vec \<Rightarrow> real) \<Rightarrow> vec list \<Rightarrow> real" where
  "simd_flux_total W horizontal_total psi =
     horizontal_total (foldl mm_add_pd (mm_set1_pd W 0) psi)"

definition simd_fluxm_totals ::
  "nat \<Rightarrow> (vec \<Rightarrow> real) \<Rightarrow> snap_tables \<Rightarrow> cell_input \<Rightarrow> vec list \<Rightarrow> real list" where
  "simd_fluxm_totals W horizontal_total S c psi =
     (if Snap_num_moments S > 1 then
        map (\<lambda>l. let offset = l * Snap_num_angles S
                         + nat (in_corner c) * Snap_num_angles S * nat (Snap_num_moments S)
                 in horizontal_total
                      (foldl mm_add_pd (mm_set1_pd W 0)
                         (map (\<lambda>ang. mm_mul_pd (psi ! ang) (lanes_at W (Snap_ec S) offset ang))
                            [0..<Snap_num_angles S div W])))
          [1..<nat (Snap_num_moments S)]
      else [])"

text \<open>
  The body for one cell, with the results as the doubles the vectors hold. The assertion
  on \<^verbatim>\<open>num_angles\<close> is the fault \<open>AssertionFailed\<close>.
\<close>

definition simd_cell ::
  "nat \<Rightarrow> (vec \<Rightarrow> real) \<Rightarrow> snap_tables \<Rightarrow> cell_input \<Rightarrow> (fault + cell_output) option" where
  "simd_cell W horizontal_total S c =
     (if Snap_num_angles S mod W \<noteq> 0 then Some (Inl AssertionFailed)
      else
        (let angs = [0..<Snap_num_angles S div W];
             psi = simd_angular_source W S c
         in case simd_initial_solution W S c psi of
              Inl e \<Rightarrow> Some (Inl e)
            | Inr pc \<Rightarrow>
                if Snap_flux_fixup S then
                  (case simd_fixup_loop W S c psi
                          (simd_fixup_init W (Snap_num_angles S div W) pc) of
                     None \<Rightarrow> None
                   | Some s \<Rightarrow>
                       Some (Inr \<lparr> out_pc = concat (ss_pc s),
                         out_psii = concat (map (\<lambda>ang. mm_mul_pd (ss_fx_hv_x s ! ang) (ss_hv_x s ! ang)) angs),
                         out_psij = concat (map (\<lambda>ang. mm_mul_pd (ss_fx_hv_y s ! ang) (ss_hv_y s ! ang)) angs),
                         out_psik = concat (map (\<lambda>ang. mm_mul_pd (ss_fx_hv_z s ! ang) (ss_hv_z s ! ang)) angs),
                         out_time_flux_out =
                           (if in_vdelt c \<noteq> 0
                            then Some (concat (map (\<lambda>ang. mm_mul_pd (ss_fx_hv_t s ! ang) (ss_hv_t s ! ang)) angs))
                            else None),
                         out_flux = simd_flux_total W horizontal_total psi,
                         out_fluxm = simd_fluxm_totals W horizontal_total S c psi \<rparr>))
                else
                  Some (Inr \<lparr> out_pc = concat pc,
                    out_psii = concat (map (\<lambda>ang. mm_sub_pd (mm_mul_pd (mm_set1_pd W 2) (pc ! ang))
                                                   (lanes_at W (in_psii c) 0 ang)) angs),
                    out_psij = concat (map (\<lambda>ang. mm_sub_pd (mm_mul_pd (mm_set1_pd W 2) (pc ! ang))
                                                   (lanes_at W (in_psij c) 0 ang)) angs),
                    out_psik = concat (map (\<lambda>ang. mm_sub_pd (mm_mul_pd (mm_set1_pd W 2) (pc ! ang))
                                                   (lanes_at W (in_psik c) 0 ang)) angs),
                    out_time_flux_out =
                      (if in_vdelt c \<noteq> 0
                       then Some (concat (map (\<lambda>ang. mm_sub_pd (mm_mul_pd (mm_set1_pd W 2) (pc ! ang))
                                                   (lanes_at W (in_time_flux_in c) 0 ang)) angs))
                       else None),
                    out_flux = simd_flux_total W horizontal_total psi,
                    out_fluxm = simd_fluxm_totals W horizontal_total S c psi \<rparr>)))"

definition sse_implementation_cell :: "snap_tables \<Rightarrow> cell_input \<Rightarrow> (fault + cell_output) option" where
  "sse_implementation_cell S c = simd_cell 2 sse_horizontal_total S c"

definition avx_implementation_cell :: "snap_tables \<Rightarrow> cell_input \<Rightarrow> (fault + cell_output) option" where
  "avx_implementation_cell S c = simd_cell 4 avx_horizontal_total S c"

text \<open>
  Four angles, one moment, the MMS source on: the tables and a cell whose angular source
  is \<open>psi = [1, 2, 3, 4]\<close>.
\<close>

definition tables_4ang :: snap_tables where
  "tables_4ang = \<lparr> Snap_num_angles = 4, Snap_num_moments = 1,
      Snap_mu = [1, 1, 1, 1], Snap_eta = [1, 1, 1, 1], Snap_xi = [1, 1, 1, 1],
      Snap_w = [1 / 4, 1 / 4, 1 / 4, 1 / 4],
      Snap_ec = replicate 32 1, Snap_hi = 1, Snap_hj = 1, Snap_hk = 1,
      Snap_flux_fixup = False, Snap_mms_source = True \<rparr>"

definition cell_4ang :: cell_input where
  "cell_4ang = \<lparr> in_corner = 0, in_quad = [1, 0, 0, 0], in_qim = [0, 1, 2, 3],
      in_psii = [1, 1, 1, 1], in_psij = [1, 1, 1, 1], in_psik = [1, 1, 1, 1],
      in_time_flux_in = [0, 0, 0, 0],
      in_dinv = [1 / 4, 1 / 4, 1 / 4, 1 / 4], in_t_xs = 1, in_vdelt = 0 \<rparr>"

section \<open>Theorems\<close>

lemma outer_cells_iff:
  "outer_cells epsi cells = (\<forall>c \<in> set cells. outer_df (fst c) (snd c) \<le> epsi)"
  by (induction cells) (auto simp: Let_def split: if_splits)

lemma outer_groups_iff:
  "outer_groups epsi groups =
     (\<forall>f \<in> set groups. \<forall>c \<in> set (zip (fst f) (snd f)). outer_df (fst c) (snd c) \<le> epsi)"
proof (induction groups)
  case Nil
  show ?case by simp
next
  case (Cons f groups)
  obtain a b where f: "f = (a, b)" by (cases f)
  show ?case unfolding f by (simp add: outer_cells_iff Cons.IH)
qed

lemma ball_zip_nth:
  "(\<forall>c \<in> set (zip xs ys). P (fst c) (snd c)) =
   (\<forall>i < min (length xs) (length ys). P (xs ! i) (ys ! i))"
  by (simp add: all_set_conv_all_nth)

lemma outer_df_cases:
  "outer_df flux0 flux0po =
     (if \<bar>flux0po\<bar> < tolr then \<bar>flux0\<bar> else \<bar>flux0 / flux0po - 1\<bar>)"
  by (simp add: outer_df_def)

lemma dlt_MInf [simp]: "dlt x MInf = False"
  by (cases x) auto

lemma dlt_PInf_left [simp]: "dlt PInf x = False"
  by (cases x) auto

lemma dadd_zero [simp]: "dadd x (Fin 0) = x"
  by (cases x) auto

lemma dadd_comm: "dadd x y = dadd y x"
  by (cases x; cases y) auto

lemma dlt_asym: "dlt x y \<Longrightarrow> \<not> dlt y x"
  by (cases x; cases y) auto

lemma dlt_total: "x \<noteq> NaN \<Longrightarrow> y \<noteq> NaN \<Longrightarrow> \<not> dlt x y \<Longrightarrow> \<not> dlt y x \<Longrightarrow> x = y"
  by (cases x; cases y) auto

lemma sel_max_comm:
  "a \<noteq> NaN \<Longrightarrow> b \<noteq> NaN \<Longrightarrow> (if dlt a b then b else a) = (if dlt b a then a else b)"
  by (cases a; cases b) auto

lemma sel_min_comm:
  "a \<noteq> NaN \<Longrightarrow> b \<noteq> NaN \<Longrightarrow> (if dlt b a then b else a) = (if dlt a b then a else b)"
  by (cases a; cases b) auto

lemma fold_exclusive_identity: "MMSReduction_fold_exclusive x MMSReduction_identity = x"
  by (cases x) (simp add: MMSReduction_fold_exclusive_def MMSReduction_identity_def dgt_def)

lemma apply_exclusive_eq_fold:
  "MMSReduction_apply_exclusive x y = MMSReduction_fold_exclusive x y"
  by (simp add: MMSReduction_apply_exclusive_def MMSReduction_fold_exclusive_def)

lemma apply_atomic_eq_fold:
  "MMSReduction_apply_atomic x y = MMSReduction_fold_atomic x y"
  by (simp add: MMSReduction_apply_atomic_def MMSReduction_fold_atomic_def)

lemma fold_exclusive_max_min_sum:
  "MMSReduction_fold_exclusive x y =
     (dmax (fst x) (fst y), dmin (fst (snd x)) (fst (snd y)), dadd (snd (snd x)) (snd (snd y)))"
  by (cases x; cases y)
     (simp add: MMSReduction_fold_exclusive_def dmax_def dmin_def dgt_def)

lemma fold_exclusive_comm:
  assumes "triple_no_nan x" "triple_no_nan y"
  shows "MMSReduction_fold_exclusive x y = MMSReduction_fold_exclusive y x"
proof -
  obtain a0 a1 a2 where x: "x = (a0, a1, a2)" by (cases x)
  obtain b0 b1 b2 where y: "y = (b0, b1, b2)" by (cases y)
  from assms have n: "a0 \<noteq> NaN" "a1 \<noteq> NaN" "b0 \<noteq> NaN" "b1 \<noteq> NaN"
    by (simp_all add: x y triple_no_nan_def is_nan_def)
  have m: "(if dlt a0 b0 then b0 else a0) = (if dlt b0 a0 then a0 else b0)"
    using n by (intro sel_max_comm)
  have k: "(if dlt b1 a1 then b1 else a1) = (if dlt a1 b1 then a1 else b1)"
    using n by (intro sel_min_comm)
  show ?thesis
    unfolding x y MMSReduction_fold_exclusive_def dgt_def
    by (simp only: prod.case m k dadd_comm [of a2 b2])
qed

lemma fold_atomic_eq_exclusive:
  assumes "triple_no_nan x" "triple_no_nan y"
  shows "MMSReduction_fold_atomic x y = MMSReduction_fold_exclusive x y"
proof -
  obtain a0 a1 a2 where x: "x = (a0, a1, a2)" by (cases x)
  obtain b0 b1 b2 where y: "y = (b0, b1, b2)" by (cases y)
  from assms have n: "a0 \<noteq> NaN" "a1 \<noteq> NaN" "b0 \<noteq> NaN" "b1 \<noteq> NaN"
    by (simp_all add: x y triple_no_nan_def is_nan_def)
  have m: "(if dlt b0 a0 then a0 else b0) = (if dlt a0 b0 then b0 else a0)"
    using n by (intro sel_max_comm)
  have k: "(if dlt a1 b1 then a1 else b1) = (if dlt b1 a1 then b1 else a1)"
    using n by (intro sel_min_comm)
  show ?thesis
    unfolding x y MMSReduction_fold_exclusive_def MMSReduction_fold_atomic_def dgt_def
      MAX_macro_def MIN_macro_def
    by (simp only: prod.case m k)
qed

subsection \<open>C3: the outer convergence test\<close>

text \<open>
  Claim C3, as stated, at one group with one cell whose previous flux is 0 and whose new
  flux is 1, with \<open>convergence_eps = 1/10000\<close>: the claim gives this cell the error 0, so
  the test would succeed; the code returns false, because its error value is
  \<open>|flux0 / 1 - 0| = 1\<close>.
\<close>

theorem C3_small_previous_flux_counterexample:
  "\<not> (TestOuterConvergence_cpu_implementation True (1 / 10000) [[1]] [[0]]
        \<longleftrightarrow> (True \<and> spec_outer_df 1 0 \<le> 100 * (1 / 10000)))"
  by (simp add: TestOuterConvergence_cpu_implementation_def outer_df_def spec_outer_df_def
      tolr_def)

text \<open>
  Claim C3, amended: \<^verbatim>\<open>TestOuterConvergence::cpu_implementation\<close> returns true if and only
  if the inner iteration converged and every cell of every group has an error value of at
  most \<open>100 * convergence_eps\<close>, where the error value is \<open>|flux0 / flux0po - 1|\<close> when
  \<open>|flux0po| \<ge> 1e-12\<close> and \<open>|flux0|\<close> (the previous flux replaced by 1 and the
  subtrahend by 0) when \<open>|flux0po| < 1e-12\<close>. When the inner iteration did not converge the
  result is false whatever the fields hold.
\<close>

theorem C3_outer_convergence_iff:
  "TestOuterConvergence_cpu_implementation inner_converged convergence_eps flux0 flux0po =
     (inner_converged \<and>
      (\<forall>g < min (length flux0) (length flux0po).
         \<forall>c < min (length (flux0 ! g)) (length (flux0po ! g)).
           (if \<bar>flux0po ! g ! c\<bar> < tolr then \<bar>flux0 ! g ! c\<bar>
            else \<bar>flux0 ! g ! c / flux0po ! g ! c - 1\<bar>) \<le> 100 * convergence_eps))"
proof -
  have "outer_groups epsi (zip flux0 flux0po) =
      (\<forall>g < min (length flux0) (length flux0po).
         \<forall>c < min (length (flux0 ! g)) (length (flux0po ! g)).
           outer_df (flux0 ! g ! c) (flux0po ! g ! c) \<le> epsi)" for epsi
    unfolding outer_groups_iff
    by (simp only: ball_zip_nth [where P = "\<lambda>a b. outer_df a b \<le> epsi"]
          ball_zip_nth [where P = "\<lambda>a b. \<forall>c<min (length a) (length b).
             outer_df (a ! c) (b ! c) \<le> epsi"])
  then show ?thesis
    by (simp add: TestOuterConvergence_cpu_implementation_def Let_def outer_df_cases)
qed

text \<open>
  The amended claim at two groups of two cells, one cell with a previous flux of 0: every
  error value is at most 1, and the test succeeds with \<open>convergence_eps = 1/100\<close>.
\<close>

theorem C3_outer_convergence_iff_witness:
  "TestOuterConvergence_cpu_implementation True (1 / 100) [[2, 1], [3, 4]] [[1, 0], [3, 2]]"
  using C3_outer_convergence_iff [of True "1 / 100" "[[2, 1], [3, 4]]" "[[1, 0], [3, 2]]"]
  by (simp add: tolr_def less_Suc_eq all_conj_distrib)

subsection \<open>C4: cells with a small reference flux in the MMS comparison\<close>

text \<open>
  Claim C4, as stated, at one cell with reference flux 0 and flux 5: the error value of
  the cell is 5, not 0; it raises the maximum from \<open>-\<infinity>\<close> to 5 and adds 5 to the sum.
\<close>

theorem C4_small_reference_flux_counterexample:
  "(0 :: real) < tolr \<and> mms_compare_df 5 0 \<noteq> 0
   \<and> MMSCompare_cpu_implementation [[5]] [[0]] = (Fin 5, Fin 5, Fin 5)"
  by (simp add: mms_compare_df_def MMSCompare_cpu_implementation_def mms_compare_cell_def
      tolr_def dgt_def Let_def)

text \<open>
  Claim C4, amended: in \<^verbatim>\<open>MMSCompare::cpu_implementation\<close>, for every cell whose reference
  flux is below 1e-12 the reference flux is replaced by 1.0 and the subtrahend by 0, so the
  error value of the cell is \<open>|flux|\<close>: the cell adds \<open>|flux|\<close> to the sum, and the
  maximum and the minimum are updated with \<open>|flux|\<close>.
\<close>

theorem C4_small_reference_flux:
  "ref_flux < tolr \<Longrightarrow>
     mms_compare_df flux ref_flux = \<bar>flux\<bar> \<and>
     mms_compare_cell (mx, mn, sm) (flux, ref_flux) =
       (if dgt (Fin \<bar>flux\<bar>) mx then Fin \<bar>flux\<bar> else mx,
        if dlt (Fin \<bar>flux\<bar>) mn then Fin \<bar>flux\<bar> else mn,
        dadd sm (Fin \<bar>flux\<bar>))"
  by (simp add: mms_compare_df_def mms_compare_cell_def Let_def)

theorem C4_small_reference_flux_witness:
  "(0 :: real) < tolr \<and> mms_compare_df (- 3) 0 = 3 \<and>
   mms_compare_cell (Fin 1, Fin 1, Fin 1) (- 3, 0) = (Fin 3, Fin 1, Fin 4)"
proof -
  have h: "(0 :: real) < tolr" by (simp add: tolr_def)
  show ?thesis
    using h C4_small_reference_flux [OF h, of "- 3" "Fin 1" "Fin 1" "Fin 1"]
    by (simp add: dgt_def)
qed

subsection \<open>C6: the cell boundaries of the manufactured solution\<close>

text \<open>
  Claim C6 at a 2 x 2 x 2 grid on a box of extents 2, 4 and 6 (cell widths \<open>dx = 1\<close>,
  \<open>dy = 2\<close>, \<open>dz = 3\<close>): both routines build \<open>jb = kb = [0, 1, 2]\<close>, that is, the y and
  the z boundaries advance by \<open>dx\<close>, where the claim asks for \<open>[0, 2, 4]\<close> and
  \<open>[0, 3, 6]\<close>.
\<close>

theorem C6_boundaries_advance_by_dx:
  "MMSInitFlux_boundaries grid_2x4x6 (0, 0, 0) = ([0, 1, 2], [0, 1, 2], [0, 1, 2])
   \<and> MMSInitSource_boundaries grid_2x4x6 (0, 0, 0) = ([0, 1, 2], [0, 1, 2], [0, 1, 2])
   \<and> ly grid_2x4x6 / of_int (ny grid_2x4x6) = 2
   \<and> lz grid_2x4x6 / of_int (nz grid_2x4x6) = 3"
  by (simp add: MMSInitFlux_boundaries_def MMSInitSource_boundaries_def grid_2x4x6_def
      Let_def numeral_2_eq_2)

subsection \<open>C10: the reduction of error triples\<close>

lemma fold_atomic_identity:
  assumes "\<not> is_nan (fst x)" and "\<not> is_nan (fst (snd x))"
  shows "MMSReduction_fold_atomic x MMSReduction_identity = x"
proof -
  obtain a0 a1 a2 where x: "x = (a0, a1, a2)" by (cases x)
  from assms have n: "a0 \<noteq> NaN" "a1 \<noteq> NaN"
    by (simp_all add: x is_nan_def)
  have m: "MAX_macro a0 MInf = a0"
    using n(1) by (cases a0) (simp_all add: MAX_macro_def dgt_def)
  have k: "MIN_macro a1 PInf = a1"
    using n(2) by (cases a1) (simp_all add: MIN_macro_def)
  show ?thesis
    by (simp add: x MMSReduction_fold_atomic_def MMSReduction_identity_def m k)
qed

text \<open>
  Claim C10, as stated, at the triple \<open>(NaN, NaN, 7)\<close> for \<^verbatim>\<open>fold<false>\<close>: the macros
  \<^verbatim>\<open>MAX(old, -INFINITY)\<close> and \<^verbatim>\<open>MIN(old, INFINITY)\<close> compare \<open>old > rhs\<close> and \<open>old < rhs\<close>
  with \<open>old\<close> NaN, both false, and store the identity's bounds: folding the identity
  changes the triple.
\<close>

theorem C10_atomic_fold_identity_counterexample:
  "MMSReduction_fold_atomic (NaN, NaN, Fin 7) MMSReduction_identity = (MInf, PInf, Fin 7)
   \<and> MMSReduction_fold_atomic (NaN, NaN, Fin 7) MMSReduction_identity \<noteq> (NaN, NaN, Fin 7)"
  by (simp add: MMSReduction_fold_atomic_def MMSReduction_identity_def MAX_macro_def
      MIN_macro_def dgt_def)

text \<open>
  Claim C10, amended: the identity of \<^verbatim>\<open>MMSReduction\<close> is \<open>(-\<infinity>, +\<infinity>, 0)\<close>; folding the
  identity into a triple leaves it unchanged, for every triple with \<^verbatim>\<open>fold<true>\<close> and for
  every triple whose max and min components are not NaN with \<^verbatim>\<open>fold<false>\<close> and
  \<^verbatim>\<open>apply<false>\<close>; \<^verbatim>\<open>apply\<close> and \<^verbatim>\<open>fold\<close> compute the same combination; and for triples
  without NaN components the fold is commutative and is the componentwise (max, min, sum),
  in the exclusive and in the compare-and-swap variant.
\<close>

theorem C10_triple_reduction:
  "MMSReduction_identity = (MInf, PInf, Fin 0)
   \<and> MMSReduction_fold_exclusive x MMSReduction_identity = x
   \<and> (\<not> is_nan (fst x) \<and> \<not> is_nan (fst (snd x)) \<longrightarrow>
        MMSReduction_fold_atomic x MMSReduction_identity = x
      \<and> MMSReduction_apply_atomic x MMSReduction_identity = x)
   \<and> MMSReduction_apply_exclusive x y = MMSReduction_fold_exclusive x y
   \<and> MMSReduction_apply_atomic x y = MMSReduction_fold_atomic x y
   \<and> (triple_no_nan x \<and> triple_no_nan y \<longrightarrow>
        MMSReduction_fold_exclusive x y = MMSReduction_fold_exclusive y x
      \<and> MMSReduction_fold_exclusive x y =
          (dmax (fst x) (fst y), dmin (fst (snd x)) (fst (snd y)),
           dadd (snd (snd x)) (snd (snd y)))
      \<and> MMSReduction_fold_atomic x y = MMSReduction_fold_exclusive x y)"
proof (intro conjI impI)
  show "MMSReduction_identity = (MInf, PInf, Fin 0)"
    by (rule MMSReduction_identity_def)
  show "MMSReduction_fold_exclusive x MMSReduction_identity = x"
    by (rule fold_exclusive_identity)
  show "MMSReduction_apply_exclusive x y = MMSReduction_fold_exclusive x y"
    by (rule apply_exclusive_eq_fold)
  show "MMSReduction_apply_atomic x y = MMSReduction_fold_atomic x y"
    by (rule apply_atomic_eq_fold)
  show "MMSReduction_fold_exclusive x y =
          (dmax (fst x) (fst y), dmin (fst (snd x)) (fst (snd y)),
           dadd (snd (snd x)) (snd (snd y)))"
    by (rule fold_exclusive_max_min_sum)
next
  assume h: "\<not> is_nan (fst x) \<and> \<not> is_nan (fst (snd x))"
  then show "MMSReduction_fold_atomic x MMSReduction_identity = x"
    by (intro fold_atomic_identity) simp_all
next
  assume h: "\<not> is_nan (fst x) \<and> \<not> is_nan (fst (snd x))"
  then have "MMSReduction_fold_atomic x MMSReduction_identity = x"
    by (intro fold_atomic_identity) simp_all
  then show "MMSReduction_apply_atomic x MMSReduction_identity = x"
    by (simp add: apply_atomic_eq_fold)
next
  assume h: "triple_no_nan x \<and> triple_no_nan y"
  then show "MMSReduction_fold_exclusive x y = MMSReduction_fold_exclusive y x"
    by (intro fold_exclusive_comm) simp_all
next
  assume h: "triple_no_nan x \<and> triple_no_nan y"
  then show "MMSReduction_fold_atomic x y = MMSReduction_fold_exclusive x y"
    by (intro fold_atomic_eq_exclusive) simp_all
qed

text \<open>
  The amended claim at \<open>x = (3, 1, 4)\<close> and \<open>y = (5, -\<infinity>, +\<infinity>)\<close>, neither with a NaN:
  both orders and both variants give \<open>(5, -\<infinity>, +\<infinity>)\<close>, and folding the identity into \<open>x\<close>
  with \<^verbatim>\<open>fold<false>\<close> gives \<open>x\<close>.
\<close>

theorem C10_triple_reduction_witness:
  "triple_no_nan (Fin 3, Fin 1, Fin 4) \<and> triple_no_nan (Fin 5, MInf, PInf)
   \<and> MMSReduction_fold_exclusive (Fin 3, Fin 1, Fin 4) (Fin 5, MInf, PInf) = (Fin 5, MInf, PInf)
   \<and> MMSReduction_fold_exclusive (Fin 5, MInf, PInf) (Fin 3, Fin 1, Fin 4) = (Fin 5, MInf, PInf)
   \<and> MMSReduction_fold_atomic (Fin 3, Fin 1, Fin 4) (Fin 5, MInf, PInf) = (Fin 5, MInf, PInf)
   \<and> \<not> is_nan (Fin 3) \<and> \<not> is_nan (Fin 1)
   \<and> MMSReduction_fold_atomic (Fin 3, Fin 1, Fin 4) MMSReduction_identity = (Fin 3, Fin 1, Fin 4)"
proof -
  have h: "triple_no_nan (Fin 3, Fin 1, Fin 4) \<and> triple_no_nan (Fin 5, MInf, PInf)"
    by (simp add: triple_no_nan_def is_nan_def)
  have nn: "\<not> is_nan (Fin 3)" "\<not> is_nan (Fin 1)"
    by (simp_all add: is_nan_def)
  have v: "(dmax (Fin 3) (Fin 5), dmin (Fin 1) MInf, dadd (Fin 4) PInf) = (Fin 5, MInf, PInf)"
    by (simp add: dmax_def dmin_def)
  note inst = C10_triple_reduction [of "(Fin 3, Fin 1, Fin 4)" "(Fin 5, MInf, PInf)"]
  have k: "MMSReduction_fold_exclusive (Fin 3, Fin 1, Fin 4) (Fin 5, MInf, PInf) =
          MMSReduction_fold_exclusive (Fin 5, MInf, PInf) (Fin 3, Fin 1, Fin 4)
      \<and> MMSReduction_fold_exclusive (Fin 3, Fin 1, Fin 4) (Fin 5, MInf, PInf) =
          (dmax (Fin 3) (Fin 5), dmin (Fin 1) MInf, dadd (Fin 4) PInf)
      \<and> MMSReduction_fold_atomic (Fin 3, Fin 1, Fin 4) (Fin 5, MInf, PInf) =
          MMSReduction_fold_exclusive (Fin 3, Fin 1, Fin 4) (Fin 5, MInf, PInf)"
    using inst h by auto
  have i: "MMSReduction_fold_atomic (Fin 3, Fin 1, Fin 4) MMSReduction_identity =
          (Fin 3, Fin 1, Fin 4)"
    using inst nn by auto
  have a: "MMSReduction_fold_exclusive (Fin 3, Fin 1, Fin 4) (Fin 5, MInf, PInf) =
          MMSReduction_fold_exclusive (Fin 5, MInf, PInf) (Fin 3, Fin 1, Fin 4)"
    by (rule conjunct1 [OF k])
  have b: "MMSReduction_fold_exclusive (Fin 3, Fin 1, Fin 4) (Fin 5, MInf, PInf) =
          (Fin 5, MInf, PInf)"
    by (rule trans [OF conjunct1 [OF conjunct2 [OF k]] v])
  have c: "MMSReduction_fold_atomic (Fin 3, Fin 1, Fin 4) (Fin 5, MInf, PInf) =
          (Fin 5, MInf, PInf)"
    by (rule trans [OF conjunct2 [OF conjunct2 [OF k]] b])
  have d: "MMSReduction_fold_exclusive (Fin 5, MInf, PInf) (Fin 3, Fin 1, Fin 4) =
          (Fin 5, MInf, PInf)"
    by (rule trans [OF a [symmetric] b])
  show ?thesis
    by (intro conjI conjunct1 [OF h] conjunct2 [OF h] b c d nn i)
qed

subsection \<open>The cell kernel: evaluation at the concrete cells\<close>

lemma upt_0_2: "[0..<2] = [0, 1]"
  by (simp add: upt_rec)

lemma cell_2ang_value:
  "cpu_cell tables_2ang cell_2ang = Some (Inr \<lparr> out_pc = [5 / 4, 1],
      out_psii = [3 / 2, 0], out_psij = [5 / 2, 1], out_psik = [1 / 2, 2],
      out_time_flux_out = Some [3 / 2, 1], out_flux = 9 / 8, out_fluxm = [] \<rparr>)"
  by (simp add: cpu_cell_def cpu_angular_source_def cpu_mms_term_def cpu_initial_solution_def
      cpu_no_fixup_branch_def cpu_flux_total_def cpu_fluxm_totals_def tables_2ang_def
      cell_2ang_def Let_def upt_0_2)

subsection \<open>C1: the moment loop of the angular source\<close>

text \<open>
  With more than one moment the loop of the CPU kernel has no way out through its
  condition: whatever it returns is a fault.
\<close>

lemma moment_loop_isl:
  assumes "cpu_moment_loop S co quad l psi = Some r"
  shows "1 < Snap_num_moments S \<longrightarrow> isl r"
proof (rule cpu_moment_loop.raw_induct
    [where P = "\<lambda>S co quad l psi r. 1 < Snap_num_moments S \<longrightarrow> isl r", OF _ assms])
  fix f :: "snap_tables \<Rightarrow> int \<Rightarrow> real list \<Rightarrow> nat \<Rightarrow> real list \<Rightarrow> (fault + real list) option"
  fix S co quad l psi r
  assume IH: "\<And>S co quad l psi r. f S co quad l psi = Some r \<Longrightarrow> 1 < Snap_num_moments S \<longrightarrow> isl r"
  assume step: "(if 1 < Snap_num_moments S
      then let moment_offset = co + int l * int (Snap_num_angles S);
               r = moment_angle_loop (Snap_ec S) quad moment_offset l [0..<Snap_num_angles S] psi
           in if isl r then Some (Inl (projl r))
              else f S co quad ((l + 1) mod 2 ^ 32) (projr r)
      else Some (Inr psi)) = Some r"
  show "1 < Snap_num_moments S \<longrightarrow> isl r"
  proof
    assume m: "1 < Snap_num_moments S"
    let ?r = "moment_angle_loop (Snap_ec S) quad (co + int l * int (Snap_num_angles S)) l
                [0..<Snap_num_angles S] psi"
    show "isl r"
    proof (cases "isl ?r")
      case True
      with step m show ?thesis by (auto simp: Let_def)
    next
      case False
      with step m have "f S co quad ((l + 1) mod 2 ^ 32) (projr ?r) = Some r"
        by (simp add: Let_def)
      from IH [OF this] m show ?thesis by simp
    qed
  qed
qed

lemma cpu_moment_loop_never_returns:
  "1 < Snap_num_moments S \<Longrightarrow> cpu_moment_loop S co quad l psi \<noteq> Some (Inr psi')"
  using moment_loop_isl [of S co quad l psi "Inr psi'"] by auto

lemma cpu_angular_source_never_returns:
  "1 < Snap_num_moments S \<Longrightarrow> cpu_angular_source S c \<noteq> Some (Inr psi)"
  by (simp add: cpu_angular_source_def Let_def cpu_moment_loop_never_returns)

lemma cpu_cell_never_returns:
  "1 < Snap_num_moments S \<Longrightarrow> cpu_cell S c \<noteq> Some (Inr out)"
  using cpu_angular_source_never_returns [of S c]
  by (auto simp: cpu_cell_def split: option.splits sum.splits)

text \<open>
  Claim C1 at two angles and two moments, corner 0, \<open>qtot = (1, 2, 0, 0)\<close> and every
  coefficient of \<open>ec\<close> equal to 1: the claim gives the angular source
  \<open>psi = [1 + 1 * 2, 1 + 1 * 2]\<close> after the single pass \<open>l = 1\<close>. The loop of the code goes
  on with \<open>l = 2, 3, 4\<close> and reads \<open>quad[4]\<close>, outside the four slots of the quad; the
  kernel never reaches the initial solution.
\<close>

theorem C1_cpu_moment_loop_failing_input:
  "1 < Snap_num_moments tables_2mom
   \<and> spec_angular_source tables_2mom cell_2ang = [3, 3]
   \<and> cpu_angular_source tables_2mom cell_2ang = Some (Inl OutOfBounds)
   \<and> cpu_cell tables_2mom cell_2ang = Some (Inl OutOfBounds)"
  by (simp add: cpu_cell_def cpu_angular_source_def spec_angular_source_def tables_2mom_def
      tables_2ang_def cell_2ang_def cpu_moment_loop.simps Let_def read_at_def upt_0_2 upt_rec)

subsection \<open>C9: the branch without fixup\<close>

text \<open>
  Claim C9: when \<^verbatim>\<open>Snap::flux_fixup\<close> is off and the body reaches the reductions, then for
  every angle the outgoing face fluxes are twice the cell-centred solution \<^verbatim>\<open>pc\<close> (the
  initial solution) minus the incoming ones; \<^verbatim>\<open>time_flux_out\<close> is written, with the same
  formula on \<^verbatim>\<open>time_flux_in\<close>, when \<open>vdelt \<noteq> 0\<close> and is not written when \<open>vdelt = 0\<close>.
\<close>

theorem C9_no_fixup_outgoing:
  assumes "\<not> Snap_flux_fixup S" and "cpu_cell S c = Some (Inr out)"
    and "ang < Snap_num_angles S"
  shows "out_psii out ! ang = 2 * out_pc out ! ang - in_psii c ! ang
       \<and> out_psij out ! ang = 2 * out_pc out ! ang - in_psij c ! ang
       \<and> out_psik out ! ang = 2 * out_pc out ! ang - in_psik c ! ang
       \<and> (in_vdelt c \<noteq> 0 \<longrightarrow>
            (\<exists>t. out_time_flux_out out = Some t
                 \<and> t ! ang = 2 * out_pc out ! ang - in_time_flux_in c ! ang))
       \<and> (in_vdelt c = 0 \<longrightarrow> out_time_flux_out out = None)
       \<and> (\<exists>psi. cpu_angular_source S c = Some (Inr psi)
                 \<and> out_pc out = cpu_initial_solution S c (cpu_mms_term S c psi))"
proof -
  from assms(1,2) obtain psi where src: "cpu_angular_source S c = Some (Inr psi)"
    and out: "out = cpu_no_fixup_branch S c (cpu_initial_solution S c (cpu_mms_term S c psi))"
    by (auto simp: cpu_cell_def Let_def split: option.splits sum.splits)
  show ?thesis
    using assms(3) src by (simp add: out cpu_no_fixup_branch_def Let_def)
qed

text \<open>
  Claim C9 at the cell with two angles and \<open>vdelt = 1\<close>, second angle: \<open>pc = 1\<close>, and
  the outgoing fluxes are \<open>2 - 2\<close>, \<open>2 - 1\<close>, \<open>2 - 0\<close> and \<open>2 - 1\<close>.
\<close>

theorem C9_no_fixup_outgoing_witness:
  "\<not> Snap_flux_fixup tables_2ang \<and> (1 :: nat) < Snap_num_angles tables_2ang
   \<and> in_vdelt cell_2ang \<noteq> 0
   \<and> cpu_cell tables_2ang cell_2ang = Some (Inr \<lparr> out_pc = [5 / 4, 1],
      out_psii = [3 / 2, 0], out_psij = [5 / 2, 1], out_psik = [1 / 2, 2],
      out_time_flux_out = Some [3 / 2, 1], out_flux = 9 / 8, out_fluxm = [] \<rparr>)
   \<and> (0 :: real) = 2 * 1 - in_psii cell_2ang ! 1
   \<and> (1 :: real) = 2 * 1 - in_psij cell_2ang ! 1
   \<and> (2 :: real) = 2 * 1 - in_psik cell_2ang ! 1
   \<and> (1 :: real) = 2 * 1 - in_time_flux_in cell_2ang ! 1"
proof -
  have h1: "\<not> Snap_flux_fixup tables_2ang" by (simp add: tables_2ang_def)
  have h3: "(1 :: nat) < Snap_num_angles tables_2ang" by (simp add: tables_2ang_def)
  have v: "in_vdelt cell_2ang \<noteq> 0" by (simp add: cell_2ang_def)
  from C9_no_fixup_outgoing [OF h1 cell_2ang_value h3] v
  have "(0 :: real) = 2 * 1 - in_psii cell_2ang ! 1"
    and "(1 :: real) = 2 * 1 - in_psij cell_2ang ! 1"
    and "(2 :: real) = 2 * 1 - in_psik cell_2ang ! 1"
    and "(1 :: real) = 2 * 1 - in_time_flux_in cell_2ang ! 1"
    by simp_all
  with h1 h3 v cell_2ang_value show ?thesis by simp
qed

subsection \<open>C7: the fixup loop terminates\<close>

lemma fixup_face_hv: "fst (snd (fixup_face n pc psi_in hv)) = clear_hv n pc psi_in hv"
  by (simp add: fixup_face_def clear_hv_def Let_def cong: map_cong)

lemma fixup_face_fx:
  "fst (fixup_face n pc psi_in hv) = map (\<lambda>ang. 2 * pc ! ang - psi_in ! ang) [0..<n]"
  by (simp add: fixup_face_def Let_def)

lemma fixup_face_count:
  "snd (snd (fixup_face n pc psi_in hv)) =
     length (filter (\<lambda>v. v < 0) (map (\<lambda>ang. 2 * pc ! ang - psi_in ! ang) [0..<n]))"
  by (simp add: fixup_face_def Let_def)

lemma fixup_count_fields:
  "fs_pc (fst (fixup_count S c s)) = fs_pc s"
  "fs_old_negative_fluxes (fst (fixup_count S c s)) = fs_old_negative_fluxes s"
  "fs_hv_x (fst (fixup_count S c s)) = clear_hv (Snap_num_angles S) (fs_pc s) (in_psii c) (fs_hv_x s)"
  "fs_hv_y (fst (fixup_count S c s)) = clear_hv (Snap_num_angles S) (fs_pc s) (in_psij c) (fs_hv_y s)"
  "fs_hv_z (fst (fixup_count S c s)) = clear_hv (Snap_num_angles S) (fs_pc s) (in_psik c) (fs_hv_z s)"
  "fs_hv_t (fst (fixup_count S c s)) =
     (if in_vdelt c \<noteq> 0 then clear_hv (Snap_num_angles S) (fs_pc s) (in_time_flux_in c) (fs_hv_t s)
      else fs_hv_t s)"
  by (simp_all add: fixup_count_def Let_def split_beta fixup_face_hv)

lemma fixup_count_fx:
  "fs_fx_hv_x (fst (fixup_count S c s)) = map (\<lambda>ang. 2 * fs_pc s ! ang - in_psii c ! ang) [0..<Snap_num_angles S]"
  "fs_fx_hv_y (fst (fixup_count S c s)) = map (\<lambda>ang. 2 * fs_pc s ! ang - in_psij c ! ang) [0..<Snap_num_angles S]"
  "fs_fx_hv_z (fst (fixup_count S c s)) = map (\<lambda>ang. 2 * fs_pc s ! ang - in_psik c ! ang) [0..<Snap_num_angles S]"
  "in_vdelt c \<noteq> 0 \<Longrightarrow> fs_fx_hv_t (fst (fixup_count S c s)) =
      map (\<lambda>ang. 2 * fs_pc s ! ang - in_time_flux_in c ! ang) [0..<Snap_num_angles S]"
  by (simp_all add: fixup_count_def Let_def split_beta fixup_face_fx)

lemma fixup_count_snd_cong:
  "fs_pc a = fs_pc b \<Longrightarrow> snd (fixup_count S c a) = snd (fixup_count S c b)"
  by (simp add: fixup_count_def Let_def split_beta fixup_face_count)

lemma fixup_pc_cong:
  "fs_hv_x a = fs_hv_x b \<Longrightarrow> fs_hv_y a = fs_hv_y b \<Longrightarrow> fs_hv_z a = fs_hv_z b \<Longrightarrow>
   fs_hv_t a = fs_hv_t b \<Longrightarrow> fixup_pc S c psi a ang = fixup_pc S c psi b ang"
  by (simp add: fixup_pc_def Let_def)

lemma fixup_pc_old:
  "fixup_pc S c psi (s\<lparr> fs_old_negative_fluxes := k \<rparr>) = fixup_pc S c psi s"
  by (rule ext) (rule fixup_pc_cong; simp)

lemma fixup_next_fields:
  "fs_hv_x (fixup_next S c psi s) = fs_hv_x (fst (fixup_count S c s))"
  "fs_hv_y (fixup_next S c psi s) = fs_hv_y (fst (fixup_count S c s))"
  "fs_hv_z (fixup_next S c psi s) = fs_hv_z (fst (fixup_count S c s))"
  "fs_hv_t (fixup_next S c psi s) = fs_hv_t (fst (fixup_count S c s))"
  "fs_old_negative_fluxes (fixup_next S c psi s) = snd (fixup_count S c s)"
  "fs_pc (fixup_next S c psi s) =
     map (fixup_pc S c psi (fst (fixup_count S c s))) [0..<Snap_num_angles S]"
  by (simp_all add: fixup_next_def fixup_recompute_def fixup_pc_old)

lemma fixup_loop_unfold:
  "fixup_loop S c psi s =
     (if snd (fixup_count S c s) = fs_old_negative_fluxes s then Some (fst (fixup_count S c s))
      else fixup_loop S c psi (fixup_next S c psi s))"
  by (subst fixup_loop.simps) (simp add: Let_def fixup_next_def)


lemma nonzeros_clear_zip:
  "length bs = length hv \<Longrightarrow>
     nonzeros (map2 (\<lambda>b h. if b then 0 else h) bs hv) \<le> nonzeros hv \<and>
     (map2 (\<lambda>b h. if b then 0 else h) bs hv \<noteq> hv \<longrightarrow>
        nonzeros (map2 (\<lambda>b h. if b then 0 else h) bs hv) < nonzeros hv)"
proof (induction bs hv rule: list_induct2)
  case Nil
  show ?case by (simp add: nonzeros_def)
next
  case (Cons b bs h hv)
  then show ?case by (auto simp: nonzeros_def)
qed

lemma clear_hv_zip:
  assumes "length hv = n"
  shows "clear_hv n pc psi_in hv =
     map2 (\<lambda>b h. if b then 0 else h) (map (\<lambda>ang. 2 * pc ! ang - psi_in ! ang < 0) [0..<n]) hv"
  by (rule nth_equalityI) (simp_all add: clear_hv_def assms)

lemma length_clear_hv [simp]: "length (clear_hv n pc psi_in hv) = n"
  by (simp add: clear_hv_def)

lemma nonzeros_clear_hv:
  assumes "length hv = n"
  shows "nonzeros (clear_hv n pc psi_in hv) \<le> nonzeros hv"
    and "clear_hv n pc psi_in hv \<noteq> hv \<Longrightarrow> nonzeros (clear_hv n pc psi_in hv) < nonzeros hv"
  using nonzeros_clear_zip [of "map (\<lambda>ang. 2 * pc ! ang - psi_in ! ang < 0) [0..<n]" hv] assms
  by (simp_all add: clear_hv_zip [OF assms])


lemma fixup_measure_decreases:
  assumes go: "snd (fixup_count S c s) \<noteq> fs_old_negative_fluxes s"
  shows "fixup_measure S c psi (fixup_next S c psi s) < fixup_measure S c psi s"
proof -
  define n where "n = Snap_num_angles S"
  define s1 where "s1 = fst (fixup_count S c s)"
  define s' where "s' = fixup_next S c psi s"
  define s1' where "s1' = fst (fixup_count S c s')"
  have hv': "fs_hv_x s' = fs_hv_x s1" "fs_hv_y s' = fs_hv_y s1" "fs_hv_z s' = fs_hv_z s1"
    "fs_hv_t s' = fs_hv_t s1"
    by (simp_all add: s'_def s1_def fixup_next_fields)
  have len: "length (fs_hv_x s1) = n" "length (fs_hv_y s1) = n" "length (fs_hv_z s1) = n"
    by (simp_all add: s1_def n_def fixup_count_fields)
  have x: "fs_hv_x s1' = clear_hv n (fs_pc s') (in_psii c) (fs_hv_x s1)"
    and y: "fs_hv_y s1' = clear_hv n (fs_pc s') (in_psij c) (fs_hv_y s1)"
    and z: "fs_hv_z s1' = clear_hv n (fs_pc s') (in_psik c) (fs_hv_z s1)"
    by (simp_all add: s1'_def n_def fixup_count_fields hv')
  have xle: "nonzeros (fs_hv_x s1') \<le> nonzeros (fs_hv_x s1)"
    and xlt: "fs_hv_x s1' \<noteq> fs_hv_x s1 \<Longrightarrow> nonzeros (fs_hv_x s1') < nonzeros (fs_hv_x s1)"
    unfolding x using nonzeros_clear_hv [OF len(1)] by blast+
  have yle: "nonzeros (fs_hv_y s1') \<le> nonzeros (fs_hv_y s1)"
    and ylt: "fs_hv_y s1' \<noteq> fs_hv_y s1 \<Longrightarrow> nonzeros (fs_hv_y s1') < nonzeros (fs_hv_y s1)"
    unfolding y using nonzeros_clear_hv [OF len(2)] by blast+
  have zle: "nonzeros (fs_hv_z s1') \<le> nonzeros (fs_hv_z s1)"
    and zlt: "fs_hv_z s1' \<noteq> fs_hv_z s1 \<Longrightarrow> nonzeros (fs_hv_z s1') < nonzeros (fs_hv_z s1)"
    unfolding z using nonzeros_clear_hv [OF len(3)] by blast+
  have t: "nonzeros (fs_hv_t s1') \<le> nonzeros (fs_hv_t s1) \<and>
           (fs_hv_t s1' \<noteq> fs_hv_t s1 \<longrightarrow> nonzeros (fs_hv_t s1') < nonzeros (fs_hv_t s1))"
  proof (cases "in_vdelt c = 0")
    case True
    then have "fs_hv_t s1' = fs_hv_t s1"
      by (simp add: s1'_def fixup_count_fields hv')
    then show ?thesis by simp
  next
    case False
    then have lt: "length (fs_hv_t s1) = n"
      by (simp add: s1_def n_def fixup_count_fields)
    from False have "fs_hv_t s1' = clear_hv n (fs_pc s') (in_time_flux_in c) (fs_hv_t s1)"
      by (simp add: s1'_def n_def fixup_count_fields hv')
    then show ?thesis using nonzeros_clear_hv [OF lt] by simp
  qed
  have m: "fixup_measure S c psi s =
      3 * hv_count s1 + (if fs_pc s \<noteq> fs_pc s' then 2 else 1)"
    using go by (simp add: fixup_measure_def s1_def s'_def)
  have m': "fixup_measure S c psi s' =
      3 * hv_count s1' +
      (if fs_pc s' \<noteq> fs_pc (fixup_next S c psi s') then 2
       else if snd (fixup_count S c s) \<noteq> snd (fixup_count S c s') then 1 else 0)"
    by (simp add: fixup_measure_def s1'_def) (simp add: s'_def fixup_next_fields)
  show ?thesis
  proof (cases "fs_hv_x s1' = fs_hv_x s1 \<and> fs_hv_y s1' = fs_hv_y s1 \<and>
                fs_hv_z s1' = fs_hv_z s1 \<and> fs_hv_t s1' = fs_hv_t s1")
    case True
    then have "fixup_pc S c psi s1' = fixup_pc S c psi s1"
      by (intro ext fixup_pc_cong) simp_all
    then have same: "fs_pc (fixup_next S c psi s') = fs_pc s'"
      by (simp add: fixup_next_fields s1'_def [symmetric])
         (simp add: s'_def s1_def fixup_next_fields)
    from True have hc: "hv_count s1' = hv_count s1"
      by (simp add: hv_count_def)
    show ?thesis
    proof (cases "fs_pc s = fs_pc s'")
      case True
      then have "snd (fixup_count S c s) = snd (fixup_count S c s')"
        by (rule fixup_count_snd_cong)
      with m m' same hc True show ?thesis
        unfolding s'_def [symmetric] by simp
    next
      case False
      with m m' same hc show ?thesis
        unfolding s'_def [symmetric] by simp
    qed
  next
    case False
    then consider "fs_hv_x s1' \<noteq> fs_hv_x s1" | "fs_hv_y s1' \<noteq> fs_hv_y s1"
      | "fs_hv_z s1' \<noteq> fs_hv_z s1" | "fs_hv_t s1' \<noteq> fs_hv_t s1"
      by blast
    then have "hv_count s1' < hv_count s1"
    proof cases
      case 1
      from xlt [OF 1] yle zle t show ?thesis unfolding hv_count_def by linarith
    next
      case 2
      from ylt [OF 2] xle zle t show ?thesis unfolding hv_count_def by linarith
    next
      case 3
      from zlt [OF 3] xle yle t show ?thesis unfolding hv_count_def by linarith
    next
      case 4
      with t have "nonzeros (fs_hv_t s1') < nonzeros (fs_hv_t s1)" by blast
      with xle yle zle show ?thesis unfolding hv_count_def by linarith
    qed
    with m m' show ?thesis
      unfolding s'_def [symmetric] by (simp split: if_splits)
  qed
qed

lemma fixup_loop_terminates: "\<exists>r. fixup_loop S c psi s = Some r"
proof (induction "fixup_measure S c psi s" arbitrary: s rule: less_induct)
  case less
  show ?case
  proof (cases "snd (fixup_count S c s) = fs_old_negative_fluxes s")
    case True
    then show ?thesis by (subst fixup_loop_unfold) simp
  next
    case False
    from less [OF fixup_measure_decreases [OF False]]
    obtain r where "fixup_loop S c psi (fixup_next S c psi s) = Some r" by blast
    with False show ?thesis by (subst fixup_loop_unfold) simp
  qed
qed


lemma clear_hv_nth:
  "ang < n \<Longrightarrow> clear_hv n pc psi_in hv ! ang =
     (if 2 * pc ! ang - psi_in ! ang < 0 then 0 else hv ! ang)"
  by (simp add: clear_hv_def)

lemma count_negative_card:
  "length (filter (\<lambda>v. v < 0) (map (\<lambda>ang. 2 * pc ! ang - psi_in ! ang) [0..<n])) =
     card {ang. ang < n \<and> 2 * pc ! ang - psi_in ! ang < (0 :: real)}"
proof -
  have "{i. i < n \<and> map (\<lambda>ang. 2 * pc ! ang - psi_in ! ang) [0..<n] ! i < 0} =
        {ang. ang < n \<and> 2 * pc ! ang - psi_in ! ang < 0}"
    by auto
  then show ?thesis by (simp add: length_filter_conv_card)
qed

lemma fixup_count_snd_faces:
  "snd (fixup_count S c s) =
     (snd (snd (fixup_face (Snap_num_angles S) (fs_pc s) (in_psii c) (fs_hv_x s))) +
      snd (snd (fixup_face (Snap_num_angles S) (fs_pc s) (in_psij c) (fs_hv_y s))) +
      snd (snd (fixup_face (Snap_num_angles S) (fs_pc s) (in_psik c) (fs_hv_z s))) +
      (if in_vdelt c \<noteq> 0
       then snd (snd (fixup_face (Snap_num_angles S) (fs_pc s) (in_time_flux_in c) (fs_hv_t s)))
       else 0)) mod 2 ^ 32"
  by (simp add: fixup_count_def Let_def split_beta)

lemma fixup_count_snd:
  "snd (fixup_count S c s) =
     (card {ang. ang < Snap_num_angles S \<and> 2 * fs_pc s ! ang - in_psii c ! ang < 0} +
      card {ang. ang < Snap_num_angles S \<and> 2 * fs_pc s ! ang - in_psij c ! ang < 0} +
      card {ang. ang < Snap_num_angles S \<and> 2 * fs_pc s ! ang - in_psik c ! ang < 0} +
      (if in_vdelt c \<noteq> 0
       then card {ang. ang < Snap_num_angles S \<and> 2 * fs_pc s ! ang - in_time_flux_in c ! ang < 0}
       else 0)) mod 2 ^ 32"
  unfolding fixup_count_snd_faces fixup_face_count count_negative_card ..

text \<open>
  Claim C7: from every state, for all inputs, the fixup loop returns (also from the state
  the kernel starts it in, so the fixup branch returns); it leaves exactly when the count
  of the pass equals the stored count, and otherwise goes round with the count stored as
  the one "from the previous pass"; the count is the number of negative \<^verbatim>\<open>fx_hv\<close> values
  over the angles and the faces x, y, z, and the time term when \<open>vdelt \<noteq> 0\<close>, as an
  unsigned 32-bit number; and a pass leaves every \<^verbatim>\<open>hv\<close> flag as it was or sets it to 0.
\<close>

theorem C7_fixup_loop_terminates:
  "(\<exists>r. fixup_loop S c psi s = Some r)
   \<and> cpu_fixup_branch S c psi pc \<noteq> None
   \<and> fixup_loop S c psi s =
       (if snd (fixup_count S c s) = fs_old_negative_fluxes s
        then Some (fst (fixup_count S c s))
        else fixup_loop S c psi (fixup_next S c psi s))
   \<and> fs_old_negative_fluxes (fixup_next S c psi s) = snd (fixup_count S c s)
   \<and> snd (fixup_count S c s) =
     (card {ang. ang < Snap_num_angles S \<and> 2 * fs_pc s ! ang - in_psii c ! ang < 0} +
      card {ang. ang < Snap_num_angles S \<and> 2 * fs_pc s ! ang - in_psij c ! ang < 0} +
      card {ang. ang < Snap_num_angles S \<and> 2 * fs_pc s ! ang - in_psik c ! ang < 0} +
      (if in_vdelt c \<noteq> 0
       then card {ang. ang < Snap_num_angles S \<and> 2 * fs_pc s ! ang - in_time_flux_in c ! ang < 0}
       else 0)) mod 2 ^ 32
   \<and> (\<forall>ang < Snap_num_angles S.
        (fs_hv_x (fixup_next S c psi s) ! ang = fs_hv_x s ! ang \<or> fs_hv_x (fixup_next S c psi s) ! ang = 0)
      \<and> (fs_hv_y (fixup_next S c psi s) ! ang = fs_hv_y s ! ang \<or> fs_hv_y (fixup_next S c psi s) ! ang = 0)
      \<and> (fs_hv_z (fixup_next S c psi s) ! ang = fs_hv_z s ! ang \<or> fs_hv_z (fixup_next S c psi s) ! ang = 0)
      \<and> (fs_hv_t (fixup_next S c psi s) ! ang = fs_hv_t s ! ang \<or> fs_hv_t (fixup_next S c psi s) ! ang = 0))"
proof (intro conjI allI impI)
  show "\<exists>r. fixup_loop S c psi s = Some r"
    by (rule fixup_loop_terminates)
  show "cpu_fixup_branch S c psi pc \<noteq> None"
    using fixup_loop_terminates [of S c psi "fixup_init (Snap_num_angles S) pc"]
    by (auto simp: cpu_fixup_branch_def Let_def)
  show "fixup_loop S c psi s =
       (if snd (fixup_count S c s) = fs_old_negative_fluxes s
        then Some (fst (fixup_count S c s))
        else fixup_loop S c psi (fixup_next S c psi s))"
    by (rule fixup_loop_unfold)
  show "fs_old_negative_fluxes (fixup_next S c psi s) = snd (fixup_count S c s)"
    by (simp add: fixup_next_fields)
  show "snd (fixup_count S c s) =
     (card {ang. ang < Snap_num_angles S \<and> 2 * fs_pc s ! ang - in_psii c ! ang < 0} +
      card {ang. ang < Snap_num_angles S \<and> 2 * fs_pc s ! ang - in_psij c ! ang < 0} +
      card {ang. ang < Snap_num_angles S \<and> 2 * fs_pc s ! ang - in_psik c ! ang < 0} +
      (if in_vdelt c \<noteq> 0
       then card {ang. ang < Snap_num_angles S \<and> 2 * fs_pc s ! ang - in_time_flux_in c ! ang < 0}
       else 0)) mod 2 ^ 32"
    by (rule fixup_count_snd)
next
  fix ang assume a: "ang < Snap_num_angles S"
  show "fs_hv_x (fixup_next S c psi s) ! ang = fs_hv_x s ! ang \<or> fs_hv_x (fixup_next S c psi s) ! ang = 0"
    using a by (simp add: fixup_next_fields fixup_count_fields clear_hv_nth)
  show "fs_hv_y (fixup_next S c psi s) ! ang = fs_hv_y s ! ang \<or> fs_hv_y (fixup_next S c psi s) ! ang = 0"
    using a by (simp add: fixup_next_fields fixup_count_fields clear_hv_nth)
  show "fs_hv_z (fixup_next S c psi s) ! ang = fs_hv_z s ! ang \<or> fs_hv_z (fixup_next S c psi s) ! ang = 0"
    using a by (simp add: fixup_next_fields fixup_count_fields clear_hv_nth)
  show "fs_hv_t (fixup_next S c psi s) ! ang = fs_hv_t s ! ang \<or> fs_hv_t (fixup_next S c psi s) ! ang = 0"
    using a by (simp add: fixup_next_fields fixup_count_fields clear_hv_nth)
qed

text \<open>
  The kernel with the fixup at the cell with the source \<open>-1\<close> and no incoming flux (three
  passes of the loop).
\<close>

lemma cell_negative_source_value:
  "cpu_cell tables_fixup cell_negative_source = Some (Inr \<lparr> out_pc = [0, 0],
      out_psii = [0, 0], out_psij = [0, 0], out_psik = [0, 0],
      out_time_flux_out = None, out_flux = 0, out_fluxm = [] \<rparr>)"
  by (simp add: cpu_cell_def cpu_angular_source_def cpu_mms_term_def cpu_initial_solution_def
      cpu_fixup_branch_def cpu_flux_total_def cpu_fluxm_totals_def tables_2ang_def tables_fixup_def
      cell_negative_source_def Let_def upt_0_2 fixup_loop.simps fixup_init_def fixup_count_def
      fixup_face_def fixup_recompute_def fixup_pc_def tolr_def)

text \<open>
  The kernel with the fixup at a cell that no sweep with fixup delivers, three incoming
  fluxes of \<open>-10\<close>: every \<open>fx_hv = 2 * pc + 10\<close> is positive, the first pass counts
  nothing, and the loop leaves with the initial \<open>pc = -31/100\<close>. The statement on \<open>pc\<close>
  below therefore has the hypothesis that incoming fluxes are not negative.
\<close>

lemma cell_negative_incoming_value:
  "cpu_cell tables_fixup cell_negative_incoming = Some (Inr \<lparr> out_pc = [- 31 / 100, - 31 / 100],
      out_psii = [469 / 50, 469 / 50], out_psij = [469 / 50, 469 / 50], out_psik = [469 / 50, 469 / 50],
      out_time_flux_out = None, out_flux = - 31 / 100, out_fluxm = [] \<rparr>)"
  by (simp add: cpu_cell_def cpu_angular_source_def cpu_mms_term_def cpu_initial_solution_def
      cpu_fixup_branch_def cpu_flux_total_def cpu_fluxm_totals_def tables_2ang_def tables_fixup_def
      cell_negative_incoming_def Let_def upt_0_2 fixup_loop.simps fixup_init_def fixup_count_def
      fixup_face_def fixup_recompute_def fixup_pc_def tolr_def)

text \<open>
  Claim C7 at the cell with the source \<open>-1\<close> and no incoming flux, from the state in which
  the kernel starts the loop (\<open>pc = [-1/4, -1/4]\<close>): the first pass counts six negative
  fluxes and clears the flag of angle 0 on the x face, and the loop returns.
\<close>

theorem C7_fixup_loop_terminates_witness:
  "(0 :: nat) < Snap_num_angles tables_fixup
   \<and> (\<exists>r. fixup_loop tables_fixup cell_negative_source [- 1, - 1]
             (fixup_init 2 [- 1 / 4, - 1 / 4]) = Some r)
   \<and> snd (fixup_count tables_fixup cell_negative_source (fixup_init 2 [- 1 / 4, - 1 / 4])) = 6
   \<and> fs_hv_x (fixup_init 2 [- 1 / 4, - 1 / 4]) ! 0 = 1
   \<and> fs_hv_x (fixup_next tables_fixup cell_negative_source [- 1, - 1]
                 (fixup_init 2 [- 1 / 4, - 1 / 4])) ! 0 = 0"
proof -
  have n: "(0 :: nat) < Snap_num_angles tables_fixup"
    by (simp add: tables_fixup_def tables_2ang_def)
  have six: "snd (fixup_count tables_fixup cell_negative_source
                    (fixup_init 2 [- 1 / 4, - 1 / 4])) = 6"
    by (simp add: fixup_count_def fixup_face_def fixup_init_def tables_fixup_def
        tables_2ang_def cell_negative_source_def Let_def upt_0_2)
  have one: "fs_hv_x (fixup_init 2 [- 1 / 4, - 1 / 4]) ! 0 = 1"
    by (simp add: fixup_init_def numeral_2_eq_2)
  have zero: "fs_hv_x (fixup_next tables_fixup cell_negative_source [- 1, - 1]
                 (fixup_init 2 [- 1 / 4, - 1 / 4])) ! 0 = 0"
    by (simp add: fixup_next_fields fixup_count_fields clear_hv_def fixup_init_def
        tables_fixup_def tables_2ang_def cell_negative_source_def upt_0_2)
  from C7_fixup_loop_terminates [of tables_fixup cell_negative_source "[- 1, - 1]"
      "fixup_init 2 [- 1 / 4, - 1 / 4]" "[- 1 / 4, - 1 / 4]"]
  have "\<exists>r. fixup_loop tables_fixup cell_negative_source [- 1, - 1]
             (fixup_init 2 [- 1 / 4, - 1 / 4]) = Some r"
    by (rule conjunct1)
  with n six one zero show ?thesis by (intro conjI)
qed

subsection \<open>C8: what the fixup guarantees\<close>

lemma fixup_pc_nonneg: "0 \<le> fixup_pc S c psi s ang"
  by (simp add: fixup_pc_def Let_def tolr_def)

lemma fixup_next_pc_nonneg: "pc_nonneg (Snap_num_angles S) (fixup_next S c psi s)"
  by (simp add: pc_nonneg_def fixup_next_fields fixup_pc_nonneg)

lemma clear_hv_nonneg:
  "ang < n \<Longrightarrow> 0 \<le> hv ! ang \<Longrightarrow> 0 \<le> clear_hv n pc psi_in hv ! ang"
  by (simp add: clear_hv_nth)

lemma fixup_count_hv_nonneg:
  assumes "hv_nonneg (Snap_num_angles S) s"
  shows "hv_nonneg (Snap_num_angles S) (fst (fixup_count S c s))"
  using assms by (simp add: hv_nonneg_def fixup_count_fields clear_hv_nonneg)

lemma fixup_next_hv_nonneg:
  assumes "hv_nonneg (Snap_num_angles S) s"
  shows "hv_nonneg (Snap_num_angles S) (fixup_next S c psi s)"
  using fixup_count_hv_nonneg [OF assms, of c]
  by (simp add: hv_nonneg_def fixup_next_fields)

lemma fx_times_hv_nonneg:
  "0 \<le> hv \<Longrightarrow> 0 \<le> fx * (if fx < 0 then 0 else hv)" for fx hv :: real
  by simp

lemma fixup_count_faces_nonneg:
  assumes "hv_nonneg (Snap_num_angles S) s"
  shows "faces_nonneg S c (fst (fixup_count S c s))"
  using assms
  by (simp add: faces_nonneg_def hv_nonneg_def fixup_count_fields fixup_count_fx clear_hv_nth)


lemma card_below: "card {ang. ang < n \<and> P ang} \<le> n"
proof -
  have "card {ang. ang < n \<and> P ang} \<le> card {..<n}"
    by (rule card_mono) auto
  then show ?thesis by simp
qed

lemma card_below_empty:
  "card {ang. ang < n \<and> P ang} = 0 \<Longrightarrow> ang < n \<Longrightarrow> \<not> P ang" for n :: nat
proof -
  assume c: "card {ang. ang < n \<and> P ang} = 0" and a: "ang < n"
  have "finite {ang. ang < n \<and> P ang}" by simp
  with c have "{ang. ang < n \<and> P ang} = {}" by simp
  with a show "\<not> P ang" by blast
qed

lemma count_zero_pc_nonneg:
  assumes z: "snd (fixup_count S c s) = 0"
    and small: "4 * Snap_num_angles S < 2 ^ 32"
    and inc: "incoming_nonneg S c"
  shows "pc_nonneg (Snap_num_angles S) s"
proof -
  define n where "n = Snap_num_angles S"
  define A where "A = card {ang. ang < n \<and> 2 * fs_pc s ! ang - in_psii c ! ang < 0}"
  define B where "B = card {ang. ang < n \<and> 2 * fs_pc s ! ang - in_psij c ! ang < 0}"
  define C where "C = card {ang. ang < n \<and> 2 * fs_pc s ! ang - in_psik c ! ang < 0}"
  define D where "D = (if in_vdelt c \<noteq> 0
       then card {ang. ang < n \<and> 2 * fs_pc s ! ang - in_time_flux_in c ! ang < 0} else 0)"
  have le: "A \<le> n" "B \<le> n" "C \<le> n" "D \<le> n"
    by (simp_all add: A_def B_def C_def D_def card_below)
  have "snd (fixup_count S c s) = (A + B + C + D) mod 2 ^ 32"
    unfolding fixup_count_snd A_def B_def C_def D_def n_def ..
  moreover from le small have "A + B + C + D < 2 ^ 32"
    unfolding n_def by linarith
  ultimately have "A + B + C + D = 0" using z by simp
  then have zero: "A = 0" "B = 0" "C = 0" by simp_all
  show ?thesis
    unfolding pc_nonneg_def n_def [symmetric]
  proof (intro allI impI)
    fix ang assume a: "ang < n"
    from card_below_empty [OF zero(1) [unfolded A_def] a]
    have x: "in_psii c ! ang \<le> 2 * fs_pc s ! ang" by simp
    from card_below_empty [OF zero(2) [unfolded B_def] a]
    have y: "in_psij c ! ang \<le> 2 * fs_pc s ! ang" by simp
    from card_below_empty [OF zero(3) [unfolded C_def] a]
    have z: "in_psik c ! ang \<le> 2 * fs_pc s ! ang" by simp
    from inc a have "0 \<le> in_psii c ! ang \<or> 0 \<le> in_psij c ! ang \<or> 0 \<le> in_psik c ! ang"
      by (simp add: incoming_nonneg_def n_def)
    with x y z show "0 \<le> fs_pc s ! ang" by linarith
  qed
qed

lemma fixup_loop_result:
  assumes "fixup_loop S c psi s = Some r"
  shows "hv_nonneg (Snap_num_angles S) s \<longrightarrow>
          faces_nonneg S c r \<and>
          (4 * Snap_num_angles S < 2 ^ 32 \<and> incoming_nonneg S c \<and>
           (pc_nonneg (Snap_num_angles S) s \<or> fs_old_negative_fluxes s = 0)
             \<longrightarrow> pc_nonneg (Snap_num_angles S) r)"
proof (rule fixup_loop.raw_induct
    [where P = "\<lambda>S c psi s r. hv_nonneg (Snap_num_angles S) s \<longrightarrow>
          faces_nonneg S c r \<and>
          (4 * Snap_num_angles S < 2 ^ 32 \<and> incoming_nonneg S c \<and>
           (pc_nonneg (Snap_num_angles S) s \<or> fs_old_negative_fluxes s = 0)
             \<longrightarrow> pc_nonneg (Snap_num_angles S) r)", OF _ assms])
  fix f :: "snap_tables \<Rightarrow> cell_input \<Rightarrow> real list \<Rightarrow> fixup_state \<Rightarrow> fixup_state option"
  fix S c psi s r
  assume IH: "\<And>S c psi s r. f S c psi s = Some r \<Longrightarrow>
      hv_nonneg (Snap_num_angles S) s \<longrightarrow>
          faces_nonneg S c r \<and>
          (4 * Snap_num_angles S < 2 ^ 32 \<and> incoming_nonneg S c \<and>
           (pc_nonneg (Snap_num_angles S) s \<or> fs_old_negative_fluxes s = 0)
             \<longrightarrow> pc_nonneg (Snap_num_angles S) r)"
  assume step: "(let s1 = fst (fixup_count S c s);
          negative_fluxes = snd (fixup_count S c s)
      in if negative_fluxes = fs_old_negative_fluxes s then Some s1
         else f S c psi
                (fixup_recompute S c psi (s1\<lparr> fs_old_negative_fluxes := negative_fluxes \<rparr>))) =
      Some r"
  show "hv_nonneg (Snap_num_angles S) s \<longrightarrow>
          faces_nonneg S c r \<and>
          (4 * Snap_num_angles S < 2 ^ 32 \<and> incoming_nonneg S c \<and>
           (pc_nonneg (Snap_num_angles S) s \<or> fs_old_negative_fluxes s = 0)
             \<longrightarrow> pc_nonneg (Snap_num_angles S) r)"
  proof
    assume hv: "hv_nonneg (Snap_num_angles S) s"
    show "faces_nonneg S c r \<and>
          (4 * Snap_num_angles S < 2 ^ 32 \<and> incoming_nonneg S c \<and>
           (pc_nonneg (Snap_num_angles S) s \<or> fs_old_negative_fluxes s = 0)
             \<longrightarrow> pc_nonneg (Snap_num_angles S) r)"
    proof (cases "snd (fixup_count S c s) = fs_old_negative_fluxes s")
      case True
      with step have r: "r = fst (fixup_count S c s)" by (simp add: Let_def)
      have "pc_nonneg (Snap_num_angles S) r"
        if small: "4 * Snap_num_angles S < 2 ^ 32" and inc: "incoming_nonneg S c"
          and first: "pc_nonneg (Snap_num_angles S) s \<or> fs_old_negative_fluxes s = 0"
      proof -
        from first have "pc_nonneg (Snap_num_angles S) s"
        proof
          assume "pc_nonneg (Snap_num_angles S) s" then show ?thesis .
        next
          assume "fs_old_negative_fluxes s = 0"
          with True have "snd (fixup_count S c s) = 0" by simp
          then show ?thesis using small inc by (rule count_zero_pc_nonneg)
        qed
        then show ?thesis by (simp add: r pc_nonneg_def fixup_count_fields)
      qed
      with fixup_count_faces_nonneg [OF hv, of c] show ?thesis by (simp add: r)
    next
      case False
      with step have "f S c psi (fixup_next S c psi s) = Some r"
        by (simp add: Let_def fixup_next_def)
      from IH [OF this] fixup_next_hv_nonneg [OF hv, of c psi]
        fixup_next_pc_nonneg [of S c psi s]
      show ?thesis by blast
    qed
  qed
qed

lemma fixup_init_hv_nonneg: "hv_nonneg n (fixup_init n pc)"
  by (simp add: hv_nonneg_def fixup_init_def)

text \<open>
  Claim C8: when \<^verbatim>\<open>flux_fixup\<close> is on, the fixup branch returns, and for every angle the
  outgoing face fluxes \<^verbatim>\<open>psii\<close>, \<^verbatim>\<open>psij\<close>, \<^verbatim>\<open>psik\<close> (and \<^verbatim>\<open>time_flux_out\<close> when
  \<open>vdelt \<noteq> 0\<close>), computed as \<^verbatim>\<open>fx_hv * hv\<close> from the state the loop returns, are not
  negative, whatever the cell holds. These are the fluxes the next cell reads, from the
  local \<^verbatim>\<open>psii\<close>, the pencil, the plane or the ghost regions, so the cells of a sweep with
  fixup read incoming face fluxes that are not negative. For such a cell (it is enough
  that, for every angle, one of the three incoming face fluxes is not negative)
  \<open>pc[a] \<ge> 0\<close> for every angle \<open>a\<close>; the number of angles is taken below \<open>2^30\<close>, so
  that the unsigned 32-bit counter of the loop does not wrap.
\<close>

theorem C8_fixup_nonnegative:
  "\<exists>s out. fixup_loop S c psi (fixup_init (Snap_num_angles S) pc) = Some s
     \<and> cpu_fixup_branch S c psi pc = Some out
     \<and> out_pc out = fs_pc s
     \<and> (\<forall>ang < Snap_num_angles S.
          out_psii out ! ang = fs_fx_hv_x s ! ang * fs_hv_x s ! ang \<and> 0 \<le> out_psii out ! ang
        \<and> out_psij out ! ang = fs_fx_hv_y s ! ang * fs_hv_y s ! ang \<and> 0 \<le> out_psij out ! ang
        \<and> out_psik out ! ang = fs_fx_hv_z s ! ang * fs_hv_z s ! ang \<and> 0 \<le> out_psik out ! ang
        \<and> (in_vdelt c \<noteq> 0 \<longrightarrow>
             (\<exists>t. out_time_flux_out out = Some t
                  \<and> t ! ang = fs_fx_hv_t s ! ang * fs_hv_t s ! ang \<and> 0 \<le> t ! ang)))
     \<and> (4 * Snap_num_angles S < 2 ^ 32 \<and> incoming_nonneg S c \<longrightarrow>
          (\<forall>ang < Snap_num_angles S. 0 \<le> out_pc out ! ang))"
proof -
  define n where "n = Snap_num_angles S"
  obtain s where s: "fixup_loop S c psi (fixup_init n pc) = Some s"
    using fixup_loop_terminates [of S c psi "fixup_init n pc"] by blast
  define out where "out = \<lparr> out_pc = fs_pc s,
      out_psii = map (\<lambda>ang. fs_fx_hv_x s ! ang * fs_hv_x s ! ang) [0..<n],
      out_psij = map (\<lambda>ang. fs_fx_hv_y s ! ang * fs_hv_y s ! ang) [0..<n],
      out_psik = map (\<lambda>ang. fs_fx_hv_z s ! ang * fs_hv_z s ! ang) [0..<n],
      out_time_flux_out =
        (if in_vdelt c \<noteq> 0
         then Some (map (\<lambda>ang. fs_fx_hv_t s ! ang * fs_hv_t s ! ang) [0..<n])
         else None),
      out_flux = cpu_flux_total S (fs_pc s),
      out_fluxm = cpu_fluxm_totals S c (fs_pc s) \<rparr>"
  have br: "cpu_fixup_branch S c psi pc = Some out"
    using s by (simp add: cpu_fixup_branch_def out_def n_def Let_def)
  from fixup_loop_result [OF s [unfolded n_def]] fixup_init_hv_nonneg [of "Snap_num_angles S" pc]
  have faces: "faces_nonneg S c s"
    and pcs: "4 * Snap_num_angles S < 2 ^ 32 \<and> incoming_nonneg S c \<longrightarrow>
              pc_nonneg (Snap_num_angles S) s"
    by (simp_all add: fixup_init_def)
  have "\<forall>ang < Snap_num_angles S.
          out_psii out ! ang = fs_fx_hv_x s ! ang * fs_hv_x s ! ang \<and> 0 \<le> out_psii out ! ang
        \<and> out_psij out ! ang = fs_fx_hv_y s ! ang * fs_hv_y s ! ang \<and> 0 \<le> out_psij out ! ang
        \<and> out_psik out ! ang = fs_fx_hv_z s ! ang * fs_hv_z s ! ang \<and> 0 \<le> out_psik out ! ang
        \<and> (in_vdelt c \<noteq> 0 \<longrightarrow>
             (\<exists>t. out_time_flux_out out = Some t
                  \<and> t ! ang = fs_fx_hv_t s ! ang * fs_hv_t s ! ang \<and> 0 \<le> t ! ang))"
    using faces by (simp add: faces_nonneg_def out_def n_def)
  moreover have "4 * Snap_num_angles S < 2 ^ 32 \<and> incoming_nonneg S c \<longrightarrow>
          (\<forall>ang < Snap_num_angles S. 0 \<le> out_pc out ! ang)"
    using pcs by (simp add: pc_nonneg_def out_def)
  moreover have "out_pc out = fs_pc s" by (simp add: out_def)
  ultimately show ?thesis using s br unfolding n_def by blast
qed

text \<open>
  The amended claim at the cell with the source \<open>-1\<close> and no incoming flux: the loop
  makes three passes and returns \<open>pc = [0, 0]\<close> with outgoing fluxes 0.
\<close>

theorem C8_fixup_nonnegative_witness:
  "4 * Snap_num_angles tables_fixup < 2 ^ 32
   \<and> incoming_nonneg tables_fixup cell_negative_source
   \<and> (0 :: nat) < Snap_num_angles tables_fixup
   \<and> (\<exists>out. cpu_fixup_branch tables_fixup cell_negative_source [- 1, - 1] [- 1 / 4, - 1 / 4]
               = Some out
            \<and> 0 \<le> out_pc out ! 0 \<and> 0 \<le> out_psii out ! 0 \<and> 0 \<le> out_psij out ! 0
            \<and> 0 \<le> out_psik out ! 0)
   \<and> cpu_cell tables_fixup cell_negative_source = Some (Inr \<lparr> out_pc = [0, 0],
      out_psii = [0, 0], out_psij = [0, 0], out_psik = [0, 0],
      out_time_flux_out = None, out_flux = 0, out_fluxm = [] \<rparr>)"
proof -
  have small: "4 * Snap_num_angles tables_fixup < 2 ^ 32"
    by (simp add: tables_fixup_def tables_2ang_def)
  have inc: "incoming_nonneg tables_fixup cell_negative_source"
    by (simp add: incoming_nonneg_def tables_fixup_def tables_2ang_def
        cell_negative_source_def less_Suc_eq numeral_2_eq_2)
  have n: "(0 :: nat) < Snap_num_angles tables_fixup"
    by (simp add: tables_fixup_def tables_2ang_def)
  from C8_fixup_nonnegative [of tables_fixup cell_negative_source "[- 1, - 1]"
      "[- 1 / 4, - 1 / 4]"] small inc n
  have "\<exists>out. cpu_fixup_branch tables_fixup cell_negative_source [- 1, - 1] [- 1 / 4, - 1 / 4]
               = Some out
            \<and> 0 \<le> out_pc out ! 0 \<and> 0 \<le> out_psii out ! 0 \<and> 0 \<le> out_psij out ! 0
            \<and> 0 \<le> out_psik out ! 0"
    by blast
  with small inc n cell_negative_source_value show ?thesis by (intro conjI)
qed


subsection \<open>C5: the outer source\<close>



lemma foldl_update_length:
  "length (foldl (\<lambda>b p. b[k p := v p]) b ps) = length b"
  by (induction ps arbitrary: b) simp_all


lemma foldl_nested_product:
  "foldl (\<lambda>b g. foldl (\<lambda>b i. F b (g, i)) b is) b gs = foldl F b (List.product gs is)"
proof (induction gs arbitrary: b)
  case Nil
  show ?case by simp
next
  case (Cons g gs)
  have "foldl F b (map (Pair g) is) = foldl (\<lambda>b i. F b (g, i)) b is"
    by (induction "is" arbitrary: b) simp_all
  then show ?case by (simp add: Cons.IH)
qed



lemma load_strip_product:
  "load_strip R n x y z buf =
     foldl (\<lambda>b p. b[fst p * n + snd p := fa_flux0 R (fst p) (x + int (snd p), y, z)]) buf
       (List.product [0..<num_groups R] [0..<n])"
  unfolding load_strip_def
  by (rule foldl_nested_product
      [where F = "\<lambda>b p. b[fst p * n + snd p := fa_flux0 R (fst p) (x + int (snd p), y, z)]",
        simplified])

lemma length_load_strip [simp]: "length (load_strip R n x y z buf) = length buf"
  by (simp add: load_strip_product foldl_update_length)



























subsection \<open>The vector kernels against the scalar kernel\<close>

lemma upt_0_1: "[0..<1] = [0]"
  by simp

lemma upt_0_4: "[0..<4] = [0, 1, 2, 3]"
  by (simp add: upt_rec)

lemma replicate_two: "replicate 2 x = [x, x]"
  by (simp add: numeral_2_eq_2)

lemma replicate_four: "replicate 4 x = [x, x, x, x]"
  by (simp add: eval_nat_numeral)

lemmas simd_eval = upt_0_1 upt_0_2 upt_0_4 replicate_two replicate_four

lemma cell_4ang_value:
  "cpu_cell tables_4ang cell_4ang = Some (Inr \<lparr> out_pc = [1, 5 / 4, 3 / 2, 7 / 4],
      out_psii = [1, 3 / 2, 2, 5 / 2], out_psij = [1, 3 / 2, 2, 5 / 2],
      out_psik = [1, 3 / 2, 2, 5 / 2],
      out_time_flux_out = None, out_flux = 11 / 8, out_fluxm = [] \<rparr>)"
  by (simp add: cpu_cell_def cpu_angular_source_def cpu_mms_term_def cpu_initial_solution_def
      cpu_no_fixup_branch_def cpu_flux_total_def cpu_fluxm_totals_def tables_4ang_def
      cell_4ang_def Let_def upt_0_4)

lemma sse_angular_source_4ang: "simd_angular_source 2 tables_4ang cell_4ang = [[1, 2], [3, 4]]"
  by (simp add: simd_angular_source_def tables_4ang_def cell_4ang_def Let_def simd_eval
      lanes_at_def mm_set1_pd_def mm_add_pd_def)

lemma avx_angular_source_4ang: "simd_angular_source 4 tables_4ang cell_4ang = [[1, 2, 3, 4]]"
  by (simp add: simd_angular_source_def tables_4ang_def cell_4ang_def Let_def simd_eval
      lanes_at_def mm_set1_pd_def mm_add_pd_def)

lemma sse_flux_total_4ang: "simd_flux_total 2 sse_horizontal_total [[1, 2], [3, 4]] = 10"
  by (simp add: simd_flux_total_def sse_horizontal_total_def mm_hadd_pd_def mm_cvtsd_f64_def
      mm_set1_pd_def mm_add_pd_def simd_eval)

lemma avx_flux_total_4ang: "simd_flux_total 4 avx_horizontal_total [[1, 2, 3, 4]] = 6"
  by (simp add: simd_flux_total_def avx_horizontal_total_def mm256_hadd_pd_def mm_cvtsd_f64_def
      mm256_extractf128_pd_0_def mm_set1_pd_def mm_add_pd_def simd_eval)

text \<open>
  The loop over the z face leaves \<^verbatim>\<open>pc\<close> whenever there is an angle at all: it starts
  within the \<^verbatim>\<open>num_vec_angles\<close> vectors of \<^verbatim>\<open>pc\<close> and runs to \<^verbatim>\<open>num_angles\<close>.
\<close>

lemma read_at_fault: "read_at xs i = Inl e \<Longrightarrow> e = OutOfBounds"
  by (simp add: read_at_def split: if_splits)

lemma vec_read_at_fault: "vec_read_at W xs i = Inl e \<Longrightarrow> e = OutOfBounds"
  by (simp add: vec_read_at_def split: if_splits)

lemma simd_z_loop_faults:
  "a \<le> length pc \<Longrightarrow> length pc < b \<Longrightarrow>
   simd_z_loop W xi hk psik [a..<b] pc = Inl OutOfBounds"
proof (induction "length pc - a" arbitrary: a pc)
  case 0
  then have a: "a = length pc" and ab: "a < b" by simp_all
  have "[a..<b] = a # [Suc a..<b]" using ab by (simp add: upt_conv_Cons)
  moreover have "read_at pc (int a) = Inl OutOfBounds" using a by (simp add: read_at_def)
  ultimately show ?case by simp
next
  case (Suc n)
  then have lt: "a < length pc" and ab: "a < b" by simp_all
  have u: "[a..<b] = a # [Suc a..<b]" using ab by (simp add: upt_conv_Cons)
  have rec: "simd_z_loop W xi hk psik [Suc a..<b] (pc[a := v]) = Inl OutOfBounds" for v
    using Suc.hyps(1) [of "pc[a := v]" "Suc a"] Suc.hyps(2) Suc.prems lt by simp
  show ?case
    unfolding u
    by (auto simp: rec split: sum.splits dest: read_at_fault vec_read_at_fault)
qed

lemma simd_cell_faults:
  assumes "0 < Snap_num_angles S" "1 < W" "Snap_num_angles S mod W = 0"
  shows "simd_cell W horizontal_total S c = Some (Inl OutOfBounds)"
proof -
  have "Snap_num_angles S div W < Snap_num_angles S" using assms by simp
  then show ?thesis
    using assms(3) by (simp add: simd_cell_def simd_initial_solution_def Let_def simd_z_loop_faults)
qed

lemma sse_cell_4ang: "sse_implementation_cell tables_4ang cell_4ang = Some (Inl OutOfBounds)"
  unfolding sse_implementation_cell_def
  by (rule simd_cell_faults) (simp_all add: tables_4ang_def)

lemma avx_cell_4ang: "avx_implementation_cell tables_4ang cell_4ang = Some (Inl OutOfBounds)"
  unfolding avx_implementation_cell_def
  by (rule simd_cell_faults) (simp_all add: tables_4ang_def)

text \<open>
  Claim C2 (the scalar, the SSE and the AVX sweep give equal outgoing face fluxes, equal
  \<^verbatim>\<open>time_flux_out\<close> and equal totals folded into \<^verbatim>\<open>flux\<close> and \<^verbatim>\<open>fluxm\<close> on identical input).
  The code does not do this. On the cell \<open>cell_4ang\<close> with the tables \<open>tables_4ang\<close> (four
  angles, one moment, no fixup, the MMS source on, no time dependence) the scalar kernel
  returns the outgoing fluxes \<open>[1, 3/2, 2, 5/2]\<close> on the three faces and folds the total
  \<open>11/8\<close>, the sum of \<^verbatim>\<open>w[ang] * pc[ang]\<close>, into \<^verbatim>\<open>flux\<close>. The SSE and the AVX kernel both
  leave their buffer \<^verbatim>\<open>pc\<close> in the loop over the z face, which runs to \<^verbatim>\<open>num_angles\<close>
  and not to \<^verbatim>\<open>num_vec_angles\<close>, and return no result. Their reductions, on the \<^verbatim>\<open>psi\<close>
  they have at that point, the angular source \<open>[1, 2, 3, 4]\<close>, do not give the scalar total
  either: the SSE kernel adds up \<^verbatim>\<open>psi\<close> to 10, for it has no counterpart of
  \<^verbatim>\<open>psi[ang] = Snap::w[ang] * pc[ang]\<close>, and the horizontal total of the AVX kernel keeps
  twice the sum of the lanes 0 and 1 and drops the lanes 2 and 3, which is 6.
\<close>

theorem C2_vector_kernels_failing_input:
  "cpu_cell tables_4ang cell_4ang =
     Some (Inr \<lparr> out_pc = [1, 5 / 4, 3 / 2, 7 / 4],
       out_psii = [1, 3 / 2, 2, 5 / 2], out_psij = [1, 3 / 2, 2, 5 / 2],
       out_psik = [1, 3 / 2, 2, 5 / 2],
       out_time_flux_out = None, out_flux = 11 / 8, out_fluxm = [] \<rparr>)
   \<and> sse_implementation_cell tables_4ang cell_4ang = Some (Inl OutOfBounds)
   \<and> avx_implementation_cell tables_4ang cell_4ang = Some (Inl OutOfBounds)
   \<and> simd_angular_source 2 tables_4ang cell_4ang = [[1, 2], [3, 4]]
   \<and> simd_angular_source 4 tables_4ang cell_4ang = [[1, 2, 3, 4]]
   \<and> simd_flux_total 2 sse_horizontal_total (simd_angular_source 2 tables_4ang cell_4ang) = 10
   \<and> simd_flux_total 4 avx_horizontal_total (simd_angular_source 4 tables_4ang cell_4ang) = 6"
  by (simp only: cell_4ang_value sse_cell_4ang avx_cell_4ang sse_angular_source_4ang
      avx_angular_source_4ang sse_flux_total_4ang avx_flux_total_4ang simp_thms)


end
